theory Spec2Isabelle
  imports
    Complex_Main
    "HOL-Library.Char_ord"
    "HOL-Library.List_Lexorder"
    "HOL-Library.Product_Lexorder"
begin

section \<open>The weather tools of \<^verbatim>\<open>mcp-weather-bq/server.py\<close>\<close>

text \<open>
  The module defines three unit converters and four tools. Every tool builds one
  parameterised SQL query, hands it to the BigQuery client and reshapes the rows it gets
  back into a dictionary. The embedding follows that layering:
  \<^item> Python values are the datatype \<open>pyval\<close>; a Python \<open>float\<close> is a \<open>real\<close> (rounding of
    IEEE doubles is not modelled), a dictionary is an association list in insertion order;
  \<^item> the client call \<^verbatim>\<open>bq_client.query(query, job_config=...)\<close> is a call of a
    \<open>service\<close>, a function from the request (query text and bind parameters) to either the
    message of the exception it raises or the list of rows;
  \<^item> every tool returns the list of requests it has sent together with its outcome, so
    that what reaches the dataset service is part of the result;
  \<^item> \<open>bq\<close> is the reference service: the meaning of the five query texts of the module
    over a database of station and observation rows (standard SQL: three-valued
    comparisons, aggregates that skip NULL, one result row for an aggregate query without
    GROUP BY, LIKE patterns).
\<close>

subsection \<open>Python values, rows, requests\<close>

text \<open>A \<^verbatim>\<open>datetime.date\<close> is (year, month, day), compared lexicographically.\<close>

type_synonym date = "nat \<times> nat \<times> nat"

datatype pyval =
    PNone
  | PBool bool
  | PInt int
  | PFloat real
  | PStr string
  | PDate date
  | PList "pyval list"
  | PDict "(string \<times> pyval) list"

type_synonym row = "(string \<times> pyval) list"

text \<open>
  \<^verbatim>\<open>row["c"]\<close>. The rows of a query hold exactly its selected columns, so the lookup of
  an absent column (a KeyError in Python) does not arise; it reads as \<open>PNone\<close> here.
\<close>

definition col :: "row \<Rightarrow> string \<Rightarrow> pyval" where
  "col r c = (case map_of r c of Some v \<Rightarrow> v | None \<Rightarrow> PNone)"

text \<open>A FLOAT column read as \<^verbatim>\<open>Optional[float]\<close>: NULL arrives as \<^verbatim>\<open>None\<close>.\<close>

definition num :: "row \<Rightarrow> string \<Rightarrow> real option" where
  "num r c = (case col r c of PFloat x \<Rightarrow> Some x | _ \<Rightarrow> None)"

definition opt_float :: "real option \<Rightarrow> pyval" where
  "opt_float v = (case v of None \<Rightarrow> PNone | Some x \<Rightarrow> PFloat x)"

text \<open>\<^verbatim>\<open>d[k] = v\<close> on a dictionary: replace in place, or append.\<close>

fun setitem :: "(string \<times> pyval) list \<Rightarrow> string \<Rightarrow> pyval \<Rightarrow> (string \<times> pyval) list" where
  "setitem [] k v = [(k, v)]"
| "setitem ((k', v') # d) k v = (if k' = k then (k, v) # d else (k', v') # setitem d k v)"

definition keys :: "(string \<times> pyval) list \<Rightarrow> string set" where
  "keys d = set (map fst d)"

text \<open>\<^verbatim>\<open>bigquery.ScalarQueryParameter(name, type_, value)\<close> and the request sent.\<close>

record param =
  pname :: string
  ptype :: string
  pvalue :: pyval

record request =
  qtext :: string
  qparams :: "param list"

type_synonym service = "request \<Rightarrow> string + row list"

datatype error = UpstreamFailure string

type_synonym outcome = "request list \<times> (error + pyval)"

definition issued :: "outcome \<Rightarrow> request list" where
  "issued out = fst out"

definition result :: "outcome \<Rightarrow> error + pyval" where
  "result out = snd out"

subsection \<open>Dates as text\<close>

definition digit_char :: "nat \<Rightarrow> char" where
  "digit_char n = char_of (48 + n mod 10)"

definition pad2 :: "nat \<Rightarrow> string" where
  "pad2 n = [digit_char (n div 10), digit_char n]"

definition pad4 :: "nat \<Rightarrow> string" where
  "pad4 n = [digit_char (n div 1000), digit_char (n div 100), digit_char (n div 10), digit_char n]"

text \<open>\<^verbatim>\<open>date.isoformat()\<close>, which is what \<^verbatim>\<open>str\<close> gives on a date.\<close>

fun isoformat :: "date \<Rightarrow> string" where
  "isoformat (y, m, d) = pad4 y @ ''-'' @ pad2 m @ ''-'' @ pad2 d"

text \<open>\<^verbatim>\<open>str(row["date"])\<close>; the column holds a DATE or NULL.\<close>

definition date_str :: "pyval \<Rightarrow> string" where
  "date_str v = (case v of PDate d \<Rightarrow> isoformat d | PNone \<Rightarrow> ''None'' | PStr s \<Rightarrow> s | _ \<Rightarrow> [])"

definition leap_year :: "nat \<Rightarrow> bool" where
  "leap_year y = (y mod 4 = 0 \<and> (y mod 100 \<noteq> 0 \<or> y mod 400 = 0))"

definition days_in_month :: "nat \<Rightarrow> nat \<Rightarrow> nat" where
  "days_in_month y m =
     (if m = 2 then (if leap_year y then 29 else 28)
      else if m = 4 \<or> m = 6 \<or> m = 9 \<or> m = 11 then 30 else 31)"

fun valid_date :: "date \<Rightarrow> bool" where
  "valid_date (y, m, d) =
     (1 \<le> y \<and> y \<le> 9999 \<and> 1 \<le> m \<and> m \<le> 12 \<and> 1 \<le> d \<and> d \<le> days_in_month y m)"

definition digit_val :: "char \<Rightarrow> nat option" where
  "digit_val c =
     (let n = (of_char c :: nat) in if 48 \<le> n \<and> n \<le> 57 then Some (n - 48) else None)"

fun parse_digits :: "nat \<Rightarrow> string \<Rightarrow> nat option" where
  "parse_digits acc [] = Some acc"
| "parse_digits acc (c # cs) =
     (case digit_val c of None \<Rightarrow> None | Some n \<Rightarrow> parse_digits (10 * acc + n) cs)"

text \<open>
  The service's reading of a DATE bind parameter given as text: the canonical
  ten-character form \<^verbatim>\<open>YYYY-MM-DD\<close> naming a calendar date; anything else makes the
  query fail.
\<close>

definition parse_date :: "string \<Rightarrow> date option" where
  "parse_date s =
     (if length s = 10 \<and> s ! 4 = CHR ''-'' \<and> s ! 7 = CHR ''-'' then
        (case (parse_digits 0 (take 4 s), parse_digits 0 (take 2 (drop 5 s)),
               parse_digits 0 (drop 8 s)) of
           (Some y, Some m, Some d) \<Rightarrow> if valid_date (y, m, d) then Some (y, m, d) else None
         | _ \<Rightarrow> None)
      else None)"

subsection \<open>Unit converters\<close>

definition f_to_c :: "real option \<Rightarrow> real option" where
  "f_to_c v = (case v of None \<Rightarrow> None | Some x \<Rightarrow> Some ((x - 32.0) * 5.0 / 9.0))"

definition inches_to_mm :: "real option \<Rightarrow> real option" where
  "inches_to_mm v = (case v of None \<Rightarrow> None | Some x \<Rightarrow> Some (x * 25.4))"

definition knots_to_kmh :: "real option \<Rightarrow> real option" where
  "knots_to_kmh v = (case v of None \<Rightarrow> None | Some x \<Rightarrow> Some (x * 1.852))"

subsection \<open>Query texts\<close>

definition DATASET_TABLE :: string where
  "DATASET_TABLE = ''bigquery-public-data.noaa_gsod.gsod*''"

definition STATIONS_TABLE :: string where
  "STATIONS_TABLE = ''bigquery-public-data.noaa_gsod.stations''"

text \<open>A triple-quoted literal, line by line: the lines joined by newline characters.\<close>

fun text_of_lines :: "string list \<Rightarrow> string" where
  "text_of_lines [] = []"
| "text_of_lines [l] = l"
| "text_of_lines (l # ls) = l @ ''\<newline>'' @ text_of_lines ls"

definition stations_sql :: "string \<Rightarrow> string" where
  "stations_sql country_filter = text_of_lines
     ['''',
      ''    SELECT'',
      ''      stn,'',
      ''      wban,'',
      ''      name,'',
      ''      country,'',
      ''      lat,'',
      ''      lon'',
      ''    FROM `'' @ STATIONS_TABLE @ ''`'',
      ''    WHERE UPPER(name) LIKE CONCAT('%', UPPER(@city), '%')'',
      ''      '' @ country_filter,
      ''    ORDER BY name'',
      ''    LIMIT 1'',
      ''    '']"

definition summary_sql :: string where
  "summary_sql = text_of_lines
     ['''',
      ''    SELECT'',
      ''      MIN(temp) AS temp_min_f,'',
      ''      MAX(temp) AS temp_max_f,'',
      ''      AVG(temp) AS temp_mean_f,'',
      ''      SUM(IF(prcp < 99.99, prcp, 0)) AS prcp_sum_in,'',
      ''      AVG(IF(wdsp < 999.9, wdsp, NULL)) AS wind_mean_knots'',
      ''    FROM `'' @ DATASET_TABLE @ ''`'',
      ''    WHERE stn = @stn'',
      ''      AND wban = @wban'',
      ''      AND date BETWEEN @start_date AND @end_date'',
      ''      AND temp != 9999.9'',
      ''    '']"

definition hottest_sql :: string where
  "hottest_sql = text_of_lines
     ['''',
      ''    SELECT'',
      ''      date,'',
      ''      max AS max_temp_f'',
      ''    FROM `'' @ DATASET_TABLE @ ''`'',
      ''    WHERE stn = @stn'',
      ''      AND wban = @wban'',
      ''      AND EXTRACT(YEAR FROM date) = @year'',
      ''      AND max != 9999.9'',
      ''    ORDER BY max_temp_f DESC'',
      ''    LIMIT 1'',
      ''    '']"

definition daily_sql :: string where
  "daily_sql = text_of_lines
     ['''',
      ''    SELECT'',
      ''      date,'',
      ''      temp,'',
      ''      max,'',
      ''      min,'',
      ''      prcp,'',
      ''      wdsp'',
      ''    FROM `'' @ DATASET_TABLE @ ''`'',
      ''    WHERE stn = @stn'',
      ''      AND wban = @wban'',
      ''      AND date BETWEEN @start_date AND @end_date'',
      ''      AND temp != 9999.9'',
      ''    ORDER BY date'',
      ''    '']"

subsection \<open>The four tools\<close>

definition scalar_param :: "string \<Rightarrow> string \<Rightarrow> pyval \<Rightarrow> param" where
  "scalar_param n t v = \<lparr>pname = n, ptype = t, pvalue = v\<rparr>"

text \<open>
  \<^verbatim>\<open>bq_client.query(...)\<close> followed by \<^verbatim>\<open>list(job)\<close>: one request is sent; an exception of
  the client ends the tool, otherwise the continuation gets the rows.
\<close>

definition run_query :: "service \<Rightarrow> request \<Rightarrow> (row list \<Rightarrow> pyval) \<Rightarrow> outcome" where
  "run_query svc req k =
     (case svc req of
        Inl msg \<Rightarrow> ([req], Inl (UpstreamFailure msg))
      | Inr rows \<Rightarrow> ([req], Inr (k rows)))"

text \<open>\<^verbatim>\<open>if country_code:\<close> holds for a string that is neither \<^verbatim>\<open>None\<close> nor empty.\<close>

definition truthy :: "string option \<Rightarrow> bool" where
  "truthy s = (case s of None \<Rightarrow> False | Some t \<Rightarrow> t \<noteq> [])"

definition resolve_city_request :: "string \<Rightarrow> string option \<Rightarrow> request" where
  "resolve_city_request city country_code =
     (let params = [scalar_param ''city'' ''STRING'' (PStr city)];
          country_filter = [];
          (country_filter, params) =
            (case country_code of
               None \<Rightarrow> (country_filter, params)
             | Some cc \<Rightarrow>
                 if cc \<noteq> [] then
                   (''AND country = @country'',
                    params @ [scalar_param ''country'' ''STRING'' (PStr cc)])
                 else (country_filter, params))
      in \<lparr>qtext = stations_sql country_filter, qparams = params\<rparr>)"

definition resolve_city_reply :: "row list \<Rightarrow> pyval" where
  "resolve_city_reply rows =
     (case rows of
        [] \<Rightarrow> PDict [(''found'', PBool False), (''reason'', PStr ''No station for that city'')]
      | row # _ \<Rightarrow>
          PDict [(''found'', PBool True),
                 (''stn'', col row ''stn''),
                 (''wban'', col row ''wban''),
                 (''name'', col row ''name''),
                 (''country'', col row ''country''),
                 (''lat'', col row ''lat''),
                 (''lon'', col row ''lon'')])"

definition resolve_city :: "service \<Rightarrow> string \<Rightarrow> string option \<Rightarrow> outcome" where
  "resolve_city svc city country_code =
     run_query svc (resolve_city_request city country_code) resolve_city_reply"

definition range_weather_summary_request ::
  "string \<Rightarrow> string \<Rightarrow> string \<Rightarrow> string \<Rightarrow> request" where
  "range_weather_summary_request stn wban start_date end_date =
     \<lparr>qtext = summary_sql,
      qparams = [scalar_param ''stn'' ''STRING'' (PStr stn),
                 scalar_param ''wban'' ''STRING'' (PStr wban),
                 scalar_param ''start_date'' ''DATE'' (PStr start_date),
                 scalar_param ''end_date'' ''DATE'' (PStr end_date)]\<rparr>"

definition range_weather_summary_reply ::
  "string \<Rightarrow> string \<Rightarrow> string \<Rightarrow> string \<Rightarrow> row list \<Rightarrow> pyval" where
  "range_weather_summary_reply stn wban start_date end_date rows =
     (case rows of
        [] \<Rightarrow> PDict [(''found'', PBool False), (''reason'', PStr ''No data in that range'')]
      | row # _ \<Rightarrow>
          PDict [(''found'', PBool True),
                 (''stn'', PStr stn),
                 (''wban'', PStr wban),
                 (''start_date'', PStr start_date),
                 (''end_date'', PStr end_date),
                 (''temperature'',
                    PDict [(''min_c'', opt_float (f_to_c (num row ''temp_min_f''))),
                           (''max_c'', opt_float (f_to_c (num row ''temp_max_f''))),
                           (''mean_c'', opt_float (f_to_c (num row ''temp_mean_f'')))]),
                 (''rainfall'',
                    PDict [(''total_mm'', opt_float (inches_to_mm (num row ''prcp_sum_in'')))]),
                 (''wind'',
                    PDict [(''mean_kmh'', opt_float (knots_to_kmh (num row ''wind_mean_knots'')))])])"

definition range_weather_summary ::
  "service \<Rightarrow> string \<Rightarrow> string \<Rightarrow> string \<Rightarrow> string \<Rightarrow> outcome" where
  "range_weather_summary svc stn wban start_date end_date =
     run_query svc (range_weather_summary_request stn wban start_date end_date)
       (range_weather_summary_reply stn wban start_date end_date)"

definition yearly_max_temp_request :: "string \<Rightarrow> string \<Rightarrow> int \<Rightarrow> request" where
  "yearly_max_temp_request stn wban year =
     \<lparr>qtext = hottest_sql,
      qparams = [scalar_param ''stn'' ''STRING'' (PStr stn),
                 scalar_param ''wban'' ''STRING'' (PStr wban),
                 scalar_param ''year'' ''INT64'' (PInt year)]\<rparr>"

definition yearly_max_temp_reply :: "string \<Rightarrow> string \<Rightarrow> int \<Rightarrow> row list \<Rightarrow> pyval" where
  "yearly_max_temp_reply stn wban year rows =
     (case rows of
        [] \<Rightarrow> PDict [(''found'', PBool False), (''reason'', PStr ''No data for that year'')]
      | row # _ \<Rightarrow>
          PDict [(''found'', PBool True),
                 (''stn'', PStr stn),
                 (''wban'', PStr wban),
                 (''year'', PInt year),
                 (''date'', PStr (date_str (col row ''date''))),
                 (''max_c'', opt_float (f_to_c (num row ''max_temp_f'')))])"

definition yearly_max_temp :: "service \<Rightarrow> string \<Rightarrow> string \<Rightarrow> int \<Rightarrow> outcome" where
  "yearly_max_temp svc stn wban year =
     run_query svc (yearly_max_temp_request stn wban year) (yearly_max_temp_reply stn wban year)"

definition daily_weather_series_request ::
  "string \<Rightarrow> string \<Rightarrow> string \<Rightarrow> string \<Rightarrow> request" where
  "daily_weather_series_request stn wban start_date end_date =
     \<lparr>qtext = daily_sql,
      qparams = [scalar_param ''stn'' ''STRING'' (PStr stn),
                 scalar_param ''wban'' ''STRING'' (PStr wban),
                 scalar_param ''start_date'' ''DATE'' (PStr start_date),
                 scalar_param ''end_date'' ''DATE'' (PStr end_date)]\<rparr>"

text \<open>\<^verbatim>\<open>if not metrics: metrics = ["temp_mean_c"]\<close>\<close>

definition effective_metrics :: "string list option \<Rightarrow> string list" where
  "effective_metrics metrics =
     (case metrics of
        None \<Rightarrow> [''temp_mean_c'']
      | Some ms \<Rightarrow> if ms = [] then [''temp_mean_c''] else ms)"

text \<open>The body of the loop over the rows: the entry built for one row.\<close>

definition series_item :: "string list \<Rightarrow> row \<Rightarrow> (string \<times> pyval) list" where
  "series_item metrics row =
     (let item = [(''date'', PStr (date_str (col row ''date'')))];
          item = (if ''temp_mean_c'' \<in> set metrics
                  then setitem item ''temp_mean_c'' (opt_float (f_to_c (num row ''temp'')))
                  else item);
          item = (if ''temp_max_c'' \<in> set metrics \<and> col row ''max'' \<noteq> PFloat 9999.9
                  then setitem item ''temp_max_c'' (opt_float (f_to_c (num row ''max'')))
                  else item);
          item = (if ''temp_min_c'' \<in> set metrics \<and> col row ''min'' \<noteq> PFloat 9999.9
                  then setitem item ''temp_min_c'' (opt_float (f_to_c (num row ''min'')))
                  else item);
          item = (if ''rain_mm'' \<in> set metrics \<and> col row ''prcp'' \<noteq> PNone
                     \<and> (case num row ''prcp'' of Some p \<Rightarrow> p < 99.99 | None \<Rightarrow> False)
                  then setitem item ''rain_mm'' (opt_float (inches_to_mm (num row ''prcp'')))
                  else item);
          item = (if ''wind_kmh'' \<in> set metrics \<and> col row ''wdsp'' \<noteq> PNone
                     \<and> (case num row ''wdsp'' of Some w \<Rightarrow> w < 999.9 | None \<Rightarrow> False)
                  then setitem item ''wind_kmh'' (opt_float (knots_to_kmh (num row ''wdsp'')))
                  else item)
      in item)"

fun build_series :: "string list \<Rightarrow> row list \<Rightarrow> pyval list \<Rightarrow> pyval list" where
  "build_series metrics [] series = series"
| "build_series metrics (row # rows) series =
     build_series metrics rows (series @ [PDict (series_item metrics row)])"

definition daily_weather_series_reply ::
  "string \<Rightarrow> string \<Rightarrow> string \<Rightarrow> string \<Rightarrow> string list \<Rightarrow> row list \<Rightarrow> pyval" where
  "daily_weather_series_reply stn wban start_date end_date metrics rows =
     PDict [(''stn'', PStr stn),
            (''wban'', PStr wban),
            (''start_date'', PStr start_date),
            (''end_date'', PStr end_date),
            (''metrics'', PList (map PStr metrics)),
            (''data'', PList (build_series metrics rows []))]"

definition daily_weather_series ::
  "service \<Rightarrow> string \<Rightarrow> string \<Rightarrow> string \<Rightarrow> string \<Rightarrow> string list option \<Rightarrow> outcome" where
  "daily_weather_series svc stn wban start_date end_date metrics =
     run_query svc (daily_weather_series_request stn wban start_date end_date)
       (daily_weather_series_reply stn wban start_date end_date (effective_metrics metrics))"

subsection \<open>The reference dataset service\<close>

text \<open>
  The two tables the queries read, with the columns the module uses. The key columns are
  never NULL; every FLOAT column may be NULL (\<open>None\<close>). The order of the lists is the
  order in which the service would return the rows when no ORDER BY decides.
\<close>

record station =
  s_stn :: string
  s_wban :: string
  s_name :: string
  s_country :: string
  s_lat :: "real option"
  s_lon :: "real option"

record observation =
  o_stn :: string
  o_wban :: string
  o_date :: date
  o_temp :: "real option"
  o_max :: "real option"
  o_min :: "real option"
  o_prcp :: "real option"
  o_wdsp :: "real option"

record database =
  stations :: "station list"
  observations :: "observation list"

text \<open>Bind parameters as the service reads them, by name and declared type.\<close>

definition find_param :: "param list \<Rightarrow> string \<Rightarrow> param option" where
  "find_param ps n = find (\<lambda>p. pname p = n) ps"

definition string_param :: "param list \<Rightarrow> string \<Rightarrow> string option" where
  "string_param ps n =
     (case find_param ps n of
        None \<Rightarrow> None
      | Some p \<Rightarrow> if ptype p = ''STRING''
                  then (case pvalue p of PStr s \<Rightarrow> Some s | _ \<Rightarrow> None) else None)"

definition date_param :: "param list \<Rightarrow> string \<Rightarrow> date option" where
  "date_param ps n =
     (case find_param ps n of
        None \<Rightarrow> None
      | Some p \<Rightarrow> if ptype p = ''DATE''
                  then (case pvalue p of
                          PStr s \<Rightarrow> parse_date s
                        | PDate d \<Rightarrow> Some d
                        | _ \<Rightarrow> None)
                  else None)"

definition int_param :: "param list \<Rightarrow> string \<Rightarrow> int option" where
  "int_param ps n =
     (case find_param ps n of
        None \<Rightarrow> None
      | Some p \<Rightarrow> if ptype p = ''INT64''
                  then (case pvalue p of PInt i \<Rightarrow> Some i | _ \<Rightarrow> None) else None)"

text \<open>
  Comparisons with a NULL operand are NULL; WHERE keeps a row and IF takes its first
  branch only when the condition is true.
\<close>

definition sql_lt :: "real option \<Rightarrow> real \<Rightarrow> bool option" where
  "sql_lt a b = (case a of None \<Rightarrow> None | Some x \<Rightarrow> Some (x < b))"

definition sql_ne :: "real option \<Rightarrow> real \<Rightarrow> bool option" where
  "sql_ne a b = (case a of None \<Rightarrow> None | Some x \<Rightarrow> Some (x \<noteq> b))"

definition is_true :: "bool option \<Rightarrow> bool" where
  "is_true c = (c = Some True)"

definition sql_if :: "bool option \<Rightarrow> 'a \<Rightarrow> 'a \<Rightarrow> 'a" where
  "sql_if c a b = (if is_true c then a else b)"

text \<open>Aggregates skip NULL inputs and are NULL when nothing is left.\<close>

fun non_null :: "'a option list \<Rightarrow> 'a list" where
  "non_null [] = []"
| "non_null (None # vs) = non_null vs"
| "non_null (Some x # vs) = x # non_null vs"

definition sql_min :: "real option list \<Rightarrow> real option" where
  "sql_min vs = (case non_null vs of [] \<Rightarrow> None | x # xs \<Rightarrow> Some (fold min xs x))"

definition sql_max :: "real option list \<Rightarrow> real option" where
  "sql_max vs = (case non_null vs of [] \<Rightarrow> None | x # xs \<Rightarrow> Some (fold max xs x))"

definition sql_sum :: "real option list \<Rightarrow> real option" where
  "sql_sum vs = (case non_null vs of [] \<Rightarrow> None | x # xs \<Rightarrow> Some (sum_list (x # xs)))"

definition sql_avg :: "real option list \<Rightarrow> real option" where
  "sql_avg vs =
     (case non_null vs of
        [] \<Rightarrow> None
      | x # xs \<Rightarrow> Some (sum_list (x # xs) / real (length (x # xs))))"

text \<open>UPPER on the ASCII letters.\<close>

definition upper_char :: "char \<Rightarrow> char" where
  "upper_char c =
     (let n = (of_char c :: nat) in if 97 \<le> n \<and> n \<le> 122 then char_of (n - 32) else c)"

definition upper :: "string \<Rightarrow> string" where
  "upper s = map upper_char s"

text \<open>
  \<open>like_match p s\<close> is \<^verbatim>\<open>s LIKE p\<close>: a percent sign stands for any run of characters, an
  underscore for any one character, a backslash makes the next character literal. (A
  pattern ending in a lone backslash is an error of the service; the patterns built here
  end in a percent sign.)
\<close>

fun like_match :: "string \<Rightarrow> string \<Rightarrow> bool" where
  "like_match [] s = (s = [])"
| "like_match (p # ps) s =
     (if p = CHR ''%'' then
        (like_match ps s \<or> (case s of [] \<Rightarrow> False | _ # t \<Rightarrow> like_match (p # ps) t))
      else if p = CHR ''_'' then
        (case s of [] \<Rightarrow> False | _ # t \<Rightarrow> like_match ps t)
      else if p = CHR 0x5C then
        (case ps of
           [] \<Rightarrow> False
         | q # qs \<Rightarrow> (case s of [] \<Rightarrow> False | c # t \<Rightarrow> c = q \<and> like_match qs t))
      else
        (case s of [] \<Rightarrow> False | c # t \<Rightarrow> c = p \<and> like_match ps t))"

definition name_matches :: "string \<Rightarrow> station \<Rightarrow> bool" where
  "name_matches city s = like_match (''%'' @ upper city @ ''%'') (upper (s_name s))"

definition station_row :: "station \<Rightarrow> row" where
  "station_row s =
     [(''stn'', PStr (s_stn s)),
      (''wban'', PStr (s_wban s)),
      (''name'', PStr (s_name s)),
      (''country'', PStr (s_country s)),
      (''lat'', opt_float (s_lat s)),
      (''lon'', opt_float (s_lon s))]"

text \<open>The stations query, without and with the country clause.\<close>

definition run_stations :: "database \<Rightarrow> bool \<Rightarrow> param list \<Rightarrow> string + row list" where
  "run_stations db with_country ps =
     (case string_param ps ''city'' of
        None \<Rightarrow> Inl ''missing parameter: city''
      | Some city \<Rightarrow>
          if with_country then
            (case string_param ps ''country'' of
               None \<Rightarrow> Inl ''missing parameter: country''
             | Some cc \<Rightarrow>
                 Inr (map station_row (take 1 (sort_key s_name
                   (filter (\<lambda>s. name_matches city s \<and> s_country s = cc) (stations db))))))
          else
            Inr (map station_row (take 1 (sort_key s_name
              (filter (name_matches city) (stations db))))))"

text \<open>The row filter shared by the summary and the daily query.\<close>

definition admitted :: "string \<Rightarrow> string \<Rightarrow> date \<Rightarrow> date \<Rightarrow> observation \<Rightarrow> bool" where
  "admitted stn wban sd ed ob =
     (o_stn ob = stn \<and> o_wban ob = wban \<and> sd \<le> o_date ob \<and> o_date ob \<le> ed
      \<and> is_true (sql_ne (o_temp ob) 9999.9))"

definition qualifying :: "database \<Rightarrow> string \<Rightarrow> string \<Rightarrow> date \<Rightarrow> date \<Rightarrow> observation list" where
  "qualifying db stn wban sd ed = filter (admitted stn wban sd ed) (observations db)"

text \<open>An aggregate query without GROUP BY yields exactly one row, also over no rows.\<close>

definition summary_row :: "observation list \<Rightarrow> row" where
  "summary_row obs =
     [(''temp_min_f'', opt_float (sql_min (map o_temp obs))),
      (''temp_max_f'', opt_float (sql_max (map o_temp obs))),
      (''temp_mean_f'', opt_float (sql_avg (map o_temp obs))),
      (''prcp_sum_in'', opt_float (sql_sum
         (map (\<lambda>ob. sql_if (sql_lt (o_prcp ob) 99.99) (o_prcp ob) (Some 0)) obs))),
      (''wind_mean_knots'', opt_float (sql_avg
         (map (\<lambda>ob. sql_if (sql_lt (o_wdsp ob) 999.9) (o_wdsp ob) None) obs)))]"

definition run_summary :: "database \<Rightarrow> param list \<Rightarrow> string + row list" where
  "run_summary db ps =
     (case (string_param ps ''stn'', string_param ps ''wban'',
            date_param ps ''start_date'', date_param ps ''end_date'') of
        (Some stn, Some wban, Some sd, Some ed) \<Rightarrow>
          Inr [summary_row (qualifying db stn wban sd ed)]
      | _ \<Rightarrow> Inl ''invalid query parameter'')"

definition daily_row :: "observation \<Rightarrow> row" where
  "daily_row ob =
     [(''date'', PDate (o_date ob)),
      (''temp'', opt_float (o_temp ob)),
      (''max'', opt_float (o_max ob)),
      (''min'', opt_float (o_min ob)),
      (''prcp'', opt_float (o_prcp ob)),
      (''wdsp'', opt_float (o_wdsp ob))]"

definition run_daily :: "database \<Rightarrow> param list \<Rightarrow> string + row list" where
  "run_daily db ps =
     (case (string_param ps ''stn'', string_param ps ''wban'',
            date_param ps ''start_date'', date_param ps ''end_date'') of
        (Some stn, Some wban, Some sd, Some ed) \<Rightarrow>
          Inr (map daily_row (sort_key o_date (qualifying db stn wban sd ed)))
      | _ \<Rightarrow> Inl ''invalid query parameter'')"

text \<open>
  The hottest-day query. Among days of equal maximum the service may return any; the
  model returns the first in table order.
\<close>

definition hot_day :: "string \<Rightarrow> string \<Rightarrow> int \<Rightarrow> observation \<Rightarrow> bool" where
  "hot_day stn wban year ob =
     (o_stn ob = stn \<and> o_wban ob = wban \<and> int (fst (o_date ob)) = year
      \<and> is_true (sql_ne (o_max ob) 9999.9))"

definition hottest_row :: "observation \<Rightarrow> row" where
  "hottest_row ob = [(''date'', PDate (o_date ob)), (''max_temp_f'', opt_float (o_max ob))]"

definition run_hottest :: "database \<Rightarrow> param list \<Rightarrow> string + row list" where
  "run_hottest db ps =
     (case (string_param ps ''stn'', string_param ps ''wban'', int_param ps ''year'') of
        (Some stn, Some wban, Some year) \<Rightarrow>
          Inr (map hottest_row (take 1
            (sort_key (\<lambda>ob. case o_max ob of None \<Rightarrow> 0 | Some m \<Rightarrow> - m)
               (filter (hot_day stn wban year) (observations db)))))
      | _ \<Rightarrow> Inl ''invalid query parameter'')"

definition bq :: "database \<Rightarrow> service" where
  "bq db req =
     (if qtext req = stations_sql [] then run_stations db False (qparams req)
      else if qtext req = stations_sql ''AND country = @country''
        then run_stations db True (qparams req)
      else if qtext req = summary_sql then run_summary db (qparams req)
      else if qtext req = hottest_sql then run_hottest db (qparams req)
      else if qtext req = daily_sql then run_daily db (qparams req)
      else Inl ''unknown query'')"

subsection \<open>Reading a reply\<close>

text \<open>The value found in a nested dictionary by following a list of keys.\<close>

fun path :: "pyval \<Rightarrow> string list \<Rightarrow> pyval option" where
  "path v [] = Some v"
| "path (PDict d) (k # ks) = (case map_of d k of None \<Rightarrow> None | Some v \<Rightarrow> path v ks)"
| "path _ (k # ks) = None"

text \<open>
  The WHERE clause of the stations query, as a predicate on a station row: the LIKE
  match, and the country equality when the tool added that clause.
\<close>

definition wanted :: "string \<Rightarrow> string option \<Rightarrow> station \<Rightarrow> bool" where
  "wanted city country_code s =
     (name_matches city s \<and> (case country_code of None \<Rightarrow> True | Some cc \<Rightarrow> cc = [] \<or> s_country s = cc))"


subsection \<open>Example data\<close>

text \<open>
  Station 037720/99999 over the first three days of 2020: 32, 50 and 212 degrees
  Fahrenheit, with the precipitation and wind readings of the second day flagged missing.
\<close>

definition day :: "date \<Rightarrow> real option \<Rightarrow> real option \<Rightarrow> real option \<Rightarrow> observation" where
  "day d t p w =
     \<lparr>o_stn = ''037720'', o_wban = ''99999'', o_date = d, o_temp = t, o_max = t, o_min = t,
      o_prcp = p, o_wdsp = w\<rparr>"

definition scenario_db :: database where
  "scenario_db =
     \<lparr>stations = [],
      observations =
        [day (2020, 1, 1) (Some 32) (Some 1) (Some 10),
         day (2020, 1, 2) (Some 50) (Some 99.99) (Some 999.9),
         day (2020, 1, 3) (Some 212) (Some 0.5) None]\<rparr>"

text \<open>The metric names the docstring of \<open>daily_weather_series\<close> lists and its loop tests.\<close>

definition known_metrics :: "string list" where
  "known_metrics = [''temp_mean_c'', ''temp_max_c'', ''temp_min_c'', ''rain_mm'', ''wind_kmh'']"



subsection \<open>Substring containment, as the specification words the city match\<close>

text \<open>\<open>contains s t\<close>: the text \<open>t\<close> occurs in \<open>s\<close> as a contiguous part.\<close>

fun contains :: "string \<Rightarrow> string \<Rightarrow> bool" where
  "contains [] t = (t = [])"
| "contains (c # s) t = (take (length t) (c # s) = t \<or> contains s t)"

text \<open>A text without the characters that LIKE reads as pattern syntax.\<close>

definition wildcard_free :: "string \<Rightarrow> bool" where
  "wildcard_free s = list_all (\<lambda>c. c \<noteq> CHR ''%'' \<and> c \<noteq> CHR ''_'' \<and> c \<noteq> CHR 0x5C) s"

text \<open>
  Following the specification's words: the stations whose name contains the city text,
  letter case aside, and whose country equals the country code when a non-empty one is
  given.
\<close>

definition substring_matches :: "database \<Rightarrow> string \<Rightarrow> string option \<Rightarrow> station list" where
  "substring_matches db city country_code =
     filter (\<lambda>s. contains (upper (s_name s)) (upper city)
                 \<and> (case country_code of None \<Rightarrow> True | Some cc \<Rightarrow> cc = [] \<or> s_country s = cc))
       (stations db)"

text \<open>A small station directory.\<close>

definition cities_db :: database where
  "cities_db =
     \<lparr>stations =
        [\<lparr>s_stn = ''037720'', s_wban = ''99999'', s_name = ''LONDON WEATHER CENTRE'',
          s_country = ''UK'', s_lat = Some 51.5, s_lon = Some (- 0.1)\<rparr>,
         \<lparr>s_stn = ''725046'', s_wban = ''14707'', s_name = ''NEW LONDON'',
          s_country = ''US'', s_lat = Some 41.3, s_lon = None\<rparr>,
         \<lparr>s_stn = ''037760'', s_wban = ''99999'', s_name = ''LONDON GATWICK'',
          s_country = ''UK'', s_lat = Some 51.1, s_lon = Some (- 0.2)\<rparr>],
      observations = []\<rparr>"

subsection \<open>Loading the module\<close>

text \<open>
  Importing \<^verbatim>\<open>server.py\<close> runs its top-level statements in order. A statement looks
  up names in the module's namespace (on top of the builtins) and binds names in it. A
  \<^verbatim>\<open>def\<close> evaluates its decorators, its default values and its annotations when it
  runs, not its body; the look-up of a name bound nowhere raises NameError. Any statement
  may also raise for a reason outside the module (a missing package, a missing
  credentials file): \<open>fails i\<close> says whether statement number \<open>i\<close> does.
\<close>

datatype load_error = NameError string | Raised nat

record statement =
  reads :: "string list"
  binds :: "string list"

definition builtins :: "string list" where
  "builtins = [''__name__'', ''__file__'', ''open'', ''str'', ''int'', ''float'', ''dict'']"

definition server_py :: "statement list" where
  "server_py =
     [\<lparr>reads = [], binds = [''os'']\<rparr>,
      \<lparr>reads = [], binds = [''json'']\<rparr>,
      \<lparr>reads = [], binds = [''bigquery'']\<rparr>,
      \<lparr>reads = [], binds = [''service_account'']\<rparr>,
      \<lparr>reads = [], binds = [''FastMCP'']\<rparr>,
      \<lparr>reads = [], binds = [''Optional'']\<rparr>,
      \<lparr>reads = [''FastMCP''], binds = [''mcp'']\<rparr>,
      \<lparr>reads = [''os'', ''__file__''], binds = [''KEY_PATH'']\<rparr>,
      \<lparr>reads = [''open'', ''KEY_PATH''], binds = [''f'']\<rparr>,
      \<lparr>reads = [''json'', ''f''], binds = [''info'']\<rparr>,
      \<lparr>reads = [''service_account'', ''info''], binds = [''creds'']\<rparr>,
      \<lparr>reads = [''bigquery'', ''creds'', ''info''], binds = [''bq_client'']\<rparr>,
      \<lparr>reads = [], binds = [''DATASET_TABLE'']\<rparr>,
      \<lparr>reads = [], binds = [''STATIONS_TABLE'']\<rparr>,
      \<lparr>reads = [''Optional'', ''float''], binds = [''f_to_c'']\<rparr>,
      \<lparr>reads = [''Optional'', ''float''], binds = [''inches_to_mm'']\<rparr>,
      \<lparr>reads = [''Optional'', ''float''], binds = [''knots_to_kmh'']\<rparr>,
      \<lparr>reads = [''mcp'', ''str'', ''Optional'', ''dict''], binds = [''resolve_city'']\<rparr>,
      \<lparr>reads = [''mcp'', ''str'', ''dict''], binds = [''range_weather_summary'']\<rparr>,
      \<lparr>reads = [''mcp'', ''str'', ''int'', ''dict''], binds = [''yearly_max_temp'']\<rparr>,
      \<lparr>reads = [''mcp'', ''str'', ''Optional'', ''List'', ''dict''],
       binds = [''daily_weather_series'']\<rparr>,
      \<lparr>reads = [''__name__'', ''mcp''], binds = []\<rparr>]"

fun unbound :: "string list \<Rightarrow> string list \<Rightarrow> string option" where
  "unbound env [] = None"
| "unbound env (n # ns) = (if n \<in> set env then unbound env ns else Some n)"

fun exec_from ::
  "(nat \<Rightarrow> bool) \<Rightarrow> nat \<Rightarrow> string list \<Rightarrow> statement list \<Rightarrow> load_error + string list" where
  "exec_from fails i env [] = Inr env"
| "exec_from fails i env (s # ss) =
     (case unbound env (reads s) of
        Some n \<Rightarrow> Inl (NameError n)
      | None \<Rightarrow>
          if fails i then Inl (Raised i)
          else exec_from fails (Suc i) (binds s @ env) ss)"

definition import_module :: "(nat \<Rightarrow> bool) \<Rightarrow> load_error + string list" where
  "import_module fails = exec_from fails 0 builtins server_py"

section \<open>What the reference service answers to the four requests\<close>

lemma stations_sql_neq: "stations_sql [] \<noteq> stations_sql ''AND country = @country''"
  by (simp add: stations_sql_def)

lemma summary_sql_neq: "summary_sql \<noteq> stations_sql cf"
  by (simp add: stations_sql_def summary_sql_def)

lemma hottest_sql_neq: "hottest_sql \<noteq> stations_sql cf" "hottest_sql \<noteq> summary_sql"
  by (simp_all add: stations_sql_def summary_sql_def hottest_sql_def)

lemma daily_sql_neq:
  "daily_sql \<noteq> stations_sql cf" "daily_sql \<noteq> summary_sql" "daily_sql \<noteq> hottest_sql"
  by (simp_all add: stations_sql_def summary_sql_def hottest_sql_def daily_sql_def)

lemma scalar_param_sel [simp]:
  "pname (scalar_param n t v) = n" "ptype (scalar_param n t v) = t" "pvalue (scalar_param n t v) = v"
  by (simp_all add: scalar_param_def)

lemma find_param_simps [simp]:
  "find_param [] n = None"
  "find_param (p # ps) n = (if pname p = n then Some p else find_param ps n)"
  by (simp_all add: find_param_def)

lemma bq_summary:
  "bq db (range_weather_summary_request stn wban start_date end_date) =
     (case (parse_date start_date, parse_date end_date) of
        (Some sd, Some ed) \<Rightarrow> Inr [summary_row (qualifying db stn wban sd ed)]
      | _ \<Rightarrow> Inl ''invalid query parameter'')"
  using summary_sql_neq
  by (simp add: bq_def range_weather_summary_request_def run_summary_def string_param_def
      date_param_def split: option.splits)

lemma bq_daily:
  "bq db (daily_weather_series_request stn wban start_date end_date) =
     (case (parse_date start_date, parse_date end_date) of
        (Some sd, Some ed) \<Rightarrow> Inr (map daily_row (sort_key o_date (qualifying db stn wban sd ed)))
      | _ \<Rightarrow> Inl ''invalid query parameter'')"
  using daily_sql_neq
  by (simp add: bq_def daily_weather_series_request_def run_daily_def string_param_def
      date_param_def split: option.splits)

lemma bq_hottest:
  "bq db (yearly_max_temp_request stn wban year) =
     Inr (map hottest_row (take 1
            (sort_key (\<lambda>ob. case o_max ob of None \<Rightarrow> 0 | Some m \<Rightarrow> - m)
               (filter (hot_day stn wban year) (observations db)))))"
  using hottest_sql_neq
  by (simp add: bq_def yearly_max_temp_request_def run_hottest_def string_param_def
      int_param_def)

lemma bq_stations:
  "bq db (resolve_city_request city country_code) =
     Inr (map station_row (take 1 (sort_key s_name (filter (wanted city country_code) (stations db)))))"
proof (cases "truthy country_code")
  case True
  then obtain cc where cc: "country_code = Some cc" "cc \<noteq> []"
    by (auto simp: truthy_def split: option.splits)
  have w: "wanted city country_code = (\<lambda>s. name_matches city s \<and> s_country s = cc)"
    using cc by (auto simp: wanted_def fun_eq_iff)
  show ?thesis unfolding w using cc stations_sql_neq
    by (simp add: bq_def resolve_city_request_def run_stations_def string_param_def)
next
  case False
  have w: "wanted city country_code = name_matches city"
    using False by (auto simp: wanted_def truthy_def fun_eq_iff split: option.splits)
  show ?thesis unfolding w using False
    by (auto simp add: bq_def resolve_city_request_def run_stations_def string_param_def truthy_def split: option.splits)
qed


section \<open>Unit converters\<close>


lemma summary_row_Nil:
  "summary_row [] =
     [(''temp_min_f'', PNone), (''temp_max_f'', PNone), (''temp_mean_f'', PNone),
      (''prcp_sum_in'', PNone), (''wind_mean_knots'', PNone)]"
  by (simp add: summary_row_def sql_min_def sql_max_def sql_avg_def sql_sum_def opt_float_def)

section \<open>Range summary over a range without qualifying rows\<close>

text \<open>
  The branch for an empty row list is there, and right on an empty list; but the
  reference service never answers the summary request with an empty list.
\<close>

lemma reply_without_rows:
  "range_weather_summary_reply stn wban start_date end_date [] =
     PDict [(''found'', PBool False), (''reason'', PStr ''No data in that range'')]"
  by (simp add: range_weather_summary_reply_def)

lemma summary_rows_never_empty:
  assumes "bq db (range_weather_summary_request stn wban start_date end_date) = Inr rows"
  shows "length rows = 1"
  using assms by (auto simp: bq_summary split: option.splits)

text \<open>
  C1. The claim: when no observation row qualifies for the station and the date range,
  \<open>range_weather_summary\<close> answers \<open>found: False\<close> with a reason. The code does not: the
  summary query is an aggregate query without GROUP BY, which yields one row of NULLs
  over no rows, so the test \<^verbatim>\<open>if not rows\<close> never fires and the tool answers
  \<open>found: True\<close> with every aggregate \<open>None\<close>.
\<close>

theorem empty_range_summary:
  assumes "parse_date start_date = Some sd" and "parse_date end_date = Some ed"
    and "qualifying db stn wban sd ed = []"
  shows "result (range_weather_summary (bq db) stn wban start_date end_date) =
           Inr (PDict [(''found'', PBool True),
                       (''stn'', PStr stn),
                       (''wban'', PStr wban),
                       (''start_date'', PStr start_date),
                       (''end_date'', PStr end_date),
                       (''temperature'',
                          PDict [(''min_c'', PNone), (''max_c'', PNone), (''mean_c'', PNone)]),
                       (''rainfall'', PDict [(''total_mm'', PNone)]),
                       (''wind'', PDict [(''mean_kmh'', PNone)])])"
  using assms
  by (simp add: range_weather_summary_def run_query_def bq_summary result_def
      range_weather_summary_reply_def summary_row_Nil num_def col_def
      f_to_c_def inches_to_mm_def knots_to_kmh_def opt_float_def)

theorem empty_range_summary_witness:
  "parse_date ''2021-01-01'' = Some (2021, 1, 1)
   \<and> parse_date ''2021-01-03'' = Some (2021, 1, 3)
   \<and> qualifying scenario_db ''037720'' ''99999'' (2021, 1, 1) (2021, 1, 3) = []
   \<and> result (range_weather_summary (bq scenario_db) ''037720'' ''99999'' ''2021-01-01'' ''2021-01-03'') =
       Inr (PDict [(''found'', PBool True),
                   (''stn'', PStr ''037720''),
                   (''wban'', PStr ''99999''),
                   (''start_date'', PStr ''2021-01-01''),
                   (''end_date'', PStr ''2021-01-03''),
                   (''temperature'',
                      PDict [(''min_c'', PNone), (''max_c'', PNone), (''mean_c'', PNone)]),
                   (''rainfall'', PDict [(''total_mm'', PNone)]),
                   (''wind'', PDict [(''mean_kmh'', PNone)])])"
proof -
  have a: "parse_date ''2021-01-01'' = Some (2021, 1, 1)"
    by (simp add: parse_date_def digit_val_def days_in_month_def)
  have b: "parse_date ''2021-01-03'' = Some (2021, 1, 3)"
    by (simp add: parse_date_def digit_val_def days_in_month_def)
  have c: "qualifying scenario_db ''037720'' ''99999'' (2021, 1, 1) (2021, 1, 3) = []"
    by (simp add: qualifying_def scenario_db_def admitted_def day_def)
  show ?thesis using a b c empty_range_summary [OF a b c] by simp
qed

section \<open>Missing precipitation in the range summary\<close>

lemma sql_sum_all_zero:
  assumes "xs \<noteq> []" and "\<forall>x\<in>set xs. f x = Some 0"
  shows "sql_sum (map f xs) = Some 0"
proof -
  have "non_null (map f xs) = replicate (length xs) 0"
    using assms(2) by (induction xs) auto
  with assms(1) show ?thesis
    by (cases xs) (simp_all add: sql_sum_def sum_list_replicate)
qed

text \<open>
  C2. The claim: when every precipitation reading of the range is flagged missing or NULL,
  \<open>rainfall.total_mm\<close> is missing, not 0. The code does not: the query sums
  \<^verbatim>\<open>IF(prcp < 99.99, prcp, 0)\<close>, so with at least one qualifying row, all of them
  without a valid reading, the total is the number 0.
\<close>

theorem rainfall_zero_when_all_missing:
  assumes "parse_date start_date = Some sd" and "parse_date end_date = Some ed"
    and "qualifying db stn wban sd ed \<noteq> []"
    and "\<forall>ob\<in>set (qualifying db stn wban sd ed). \<not> is_true (sql_lt (o_prcp ob) 99.99)"
  shows "\<exists>v. result (range_weather_summary (bq db) stn wban start_date end_date) = Inr v
           \<and> path v [''rainfall'', ''total_mm''] = Some (PFloat 0)"
proof -
  have "sql_sum (map (\<lambda>ob. sql_if (sql_lt (o_prcp ob) 99.99) (o_prcp ob) (Some 0))
          (qualifying db stn wban sd ed)) = Some 0"
    using assms(3,4) by (intro sql_sum_all_zero) (auto simp: sql_if_def)
  then have "num (summary_row (qualifying db stn wban sd ed)) ''prcp_sum_in'' = Some 0"
    by (simp add: summary_row_def num_def col_def opt_float_def)
  then show ?thesis using assms(1,2)
    by (simp add: range_weather_summary_def run_query_def bq_summary result_def
        range_weather_summary_reply_def inches_to_mm_def opt_float_def)
qed

theorem rainfall_zero_when_all_missing_witness:
  "parse_date ''2020-01-02'' = Some (2020, 1, 2)
   \<and> qualifying scenario_db ''037720'' ''99999'' (2020, 1, 2) (2020, 1, 2) =
       [day (2020, 1, 2) (Some 50) (Some 99.99) (Some 999.9)]
   \<and> \<not> is_true (sql_lt (o_prcp (day (2020, 1, 2) (Some 50) (Some 99.99) (Some 999.9))) 99.99)
   \<and> (\<exists>v. result (range_weather_summary (bq scenario_db) ''037720'' ''99999''
               ''2020-01-02'' ''2020-01-02'') = Inr v
          \<and> path v [''rainfall'', ''total_mm''] = Some (PFloat 0))"
proof -
  have a: "parse_date ''2020-01-02'' = Some (2020, 1, 2)"
    by (simp add: parse_date_def digit_val_def days_in_month_def leap_year_def)
  have q: "qualifying scenario_db ''037720'' ''99999'' (2020, 1, 2) (2020, 1, 2) =
             [day (2020, 1, 2) (Some 50) (Some 99.99) (Some 999.9)]"
    by (simp add: qualifying_def scenario_db_def admitted_def day_def sql_ne_def is_true_def)
  have n: "\<not> is_true (sql_lt (o_prcp (day (2020, 1, 2) (Some 50) (Some 99.99) (Some 999.9))) 99.99)"
    by (simp add: day_def sql_lt_def is_true_def)
  have c: "qualifying scenario_db ''037720'' ''99999'' (2020, 1, 2) (2020, 1, 2) \<noteq> []"
    unfolding q by simp
  have d: "\<forall>ob\<in>set (qualifying scenario_db ''037720'' ''99999'' (2020, 1, 2) (2020, 1, 2)).
             \<not> is_true (sql_lt (o_prcp ob) 99.99)"
    unfolding q using n by simp
  show ?thesis using a q n rainfall_zero_when_all_missing [OF a a c d] by blast
qed

section \<open>Rows without a mean temperature in the range summary\<close>

lemma qualifying_drop:
  assumes "o_temp r = Some 9999.9"
  shows "qualifying (db\<lparr>observations := xs @ r # ys\<rparr>) stn wban sd ed =
         qualifying (db\<lparr>observations := xs @ ys\<rparr>) stn wban sd ed"
  using assms by (simp add: qualifying_def admitted_def sql_ne_def is_true_def)

text \<open>
  C5. A row whose mean temperature is the sentinel 9999.9 contributes to no aggregate of
  \<open>range_weather_summary\<close>, whatever its other readings: the tool's outcome over a table
  holding the row is its outcome over the table without it.
\<close>

theorem sentinel_temp_row_excluded:
  assumes "o_temp r = Some 9999.9"
  shows "range_weather_summary (bq (db\<lparr>observations := xs @ r # ys\<rparr>)) stn wban start_date end_date =
         range_weather_summary (bq (db\<lparr>observations := xs @ ys\<rparr>)) stn wban start_date end_date"
  by (simp add: range_weather_summary_def run_query_def bq_summary qualifying_drop [OF assms]
      split: option.splits)


theorem sentinel_temp_row_excluded_witness:
  "o_temp (day (2020, 1, 2) (Some 9999.9) (Some 3) (Some 7)) = Some 9999.9
   \<and> range_weather_summary
        (bq (scenario_db\<lparr>observations :=
               [day (2020, 1, 1) (Some 32) (Some 1) (Some 10)]
               @ day (2020, 1, 2) (Some 9999.9) (Some 3) (Some 7)
               # [day (2020, 1, 3) (Some 212) (Some 0.5) None]\<rparr>))
        ''037720'' ''99999'' ''2020-01-01'' ''2020-01-03''
     = range_weather_summary
        (bq (scenario_db\<lparr>observations :=
               [day (2020, 1, 1) (Some 32) (Some 1) (Some 10)]
               @ [day (2020, 1, 3) (Some 212) (Some 0.5) None]\<rparr>))
        ''037720'' ''99999'' ''2020-01-01'' ''2020-01-03''"
proof -
  have a: "o_temp (day (2020, 1, 2) (Some 9999.9) (Some 3) (Some 7)) = Some 9999.9"
    by (simp add: day_def)
  show ?thesis using a sentinel_temp_row_excluded [OF a] by blast
qed

section \<open>What a tool sends and what it returns\<close>

lemma issued_run_query [simp]: "issued (run_query svc req k) = [req]"
  by (simp add: issued_def run_query_def split: sum.splits)

lemma result_run_query:
  "result (run_query svc req k) =
     (case svc req of Inl msg \<Rightarrow> Inl (UpstreamFailure msg) | Inr rows \<Rightarrow> Inr (k rows))"
  by (simp add: result_def run_query_def split: sum.splits)

section \<open>The daily series restricted to rainfall\<close>

lemma build_series_map:
  "build_series metrics rows acc = acc @ map (\<lambda>row. PDict (series_item metrics row)) rows"
  by (induction rows arbitrary: acc) simp_all

lemma series_item_rain:
  "series_item [''rain_mm''] row =
     (case col row ''prcp'' of
        PFloat p \<Rightarrow> if p < 99.99
                    then [(''date'', PStr (date_str (col row ''date''))), (''rain_mm'', PFloat (p * 25.4))]
                    else [(''date'', PStr (date_str (col row ''date'')))]
      | _ \<Rightarrow> [(''date'', PStr (date_str (col row ''date'')))])"
  by (simp add: series_item_def num_def inches_to_mm_def opt_float_def split: pyval.splits)

lemma series_item_rain_keys:
  "keys (series_item [''rain_mm''] row) \<subseteq> {''date'', ''rain_mm''}"
  "''rain_mm'' \<in> keys (series_item [''rain_mm''] row) \<longleftrightarrow> (\<exists>p. col row ''prcp'' = PFloat p \<and> p < 99.99)"
  "col row ''prcp'' = PFloat p \<Longrightarrow> p < 99.99 \<Longrightarrow>
     map_of (series_item [''rain_mm''] row) ''rain_mm'' = Some (PFloat (p * 25.4))"
  by (auto simp add: series_item_rain keys_def split: pyval.splits)

text \<open>
  C7. With \<open>metrics = ["rain_mm"]\<close>, whatever rows the service returns, the reply holds
  one entry per row, in order; every entry has no key other than \<open>date\<close> and \<open>rain_mm\<close>;
  \<open>rain_mm\<close> is present exactly when the row's precipitation is a number below 99.99 (so
  not NULL and not flagged missing), and it is then that reading in millimetres.
\<close>

theorem rain_only_series:
  assumes "svc (daily_weather_series_request stn wban start_date end_date) = Inr rows"
  shows "\<exists>items.
           result (daily_weather_series svc stn wban start_date end_date (Some [''rain_mm''])) =
             Inr (PDict [(''stn'', PStr stn),
                         (''wban'', PStr wban),
                         (''start_date'', PStr start_date),
                         (''end_date'', PStr end_date),
                         (''metrics'', PList [PStr ''rain_mm'']),
                         (''data'', PList (map PDict items))])
           \<and> length items = length rows
           \<and> (\<forall>i<length rows.
                 keys (items ! i) \<subseteq> {''date'', ''rain_mm''}
                 \<and> (''rain_mm'' \<in> keys (items ! i)
                      \<longleftrightarrow> (\<exists>p. col (rows ! i) ''prcp'' = PFloat p \<and> p < 99.99))
                 \<and> (\<forall>p. col (rows ! i) ''prcp'' = PFloat p \<and> p < 99.99
                      \<longrightarrow> map_of (items ! i) ''rain_mm'' = Some (PFloat (p * 25.4))))"
proof -
  let ?items = "map (series_item [''rain_mm'']) rows"
  have "result (daily_weather_series svc stn wban start_date end_date (Some [''rain_mm''])) =
          Inr (PDict [(''stn'', PStr stn),
                      (''wban'', PStr wban),
                      (''start_date'', PStr start_date),
                      (''end_date'', PStr end_date),
                      (''metrics'', PList [PStr ''rain_mm'']),
                      (''data'', PList (map PDict ?items))])"
    using assms
    by (simp add: daily_weather_series_def result_run_query daily_weather_series_reply_def
        effective_metrics_def build_series_map comp_def)
  moreover have "length ?items = length rows" by simp
  moreover have "\<forall>i<length rows.
                 keys (?items ! i) \<subseteq> {''date'', ''rain_mm''}
                 \<and> (''rain_mm'' \<in> keys (?items ! i)
                      \<longleftrightarrow> (\<exists>p. col (rows ! i) ''prcp'' = PFloat p \<and> p < 99.99))
                 \<and> (\<forall>p. col (rows ! i) ''prcp'' = PFloat p \<and> p < 99.99
                      \<longrightarrow> map_of (?items ! i) ''rain_mm'' = Some (PFloat (p * 25.4)))"
    using series_item_rain_keys by simp
  ultimately show ?thesis by blast
qed

lemma parse_2020:
  "parse_date ''2020-01-01'' = Some (2020, 1, 1)"
  "parse_date ''2020-01-02'' = Some (2020, 1, 2)"
  "parse_date ''2020-01-03'' = Some (2020, 1, 3)"
  by (simp_all add: parse_date_def digit_val_def days_in_month_def leap_year_def)

lemma scenario_daily_rows:
  "bq scenario_db (daily_weather_series_request ''037720'' ''99999'' ''2020-01-01'' ''2020-01-03'') =
     Inr [daily_row (day (2020, 1, 1) (Some 32) (Some 1) (Some 10)),
          daily_row (day (2020, 1, 2) (Some 50) (Some 99.99) (Some 999.9)),
          daily_row (day (2020, 1, 3) (Some 212) (Some 0.5) None)]"
  by (simp add: bq_daily parse_2020 qualifying_def scenario_db_def admitted_def day_def
      sql_ne_def is_true_def)

theorem rain_only_series_witness:
  "bq scenario_db (daily_weather_series_request ''037720'' ''99999'' ''2020-01-01'' ''2020-01-03'') =
     Inr [daily_row (day (2020, 1, 1) (Some 32) (Some 1) (Some 10)),
          daily_row (day (2020, 1, 2) (Some 50) (Some 99.99) (Some 999.9)),
          daily_row (day (2020, 1, 3) (Some 212) (Some 0.5) None)]
   \<and> (\<exists>items.
           result (daily_weather_series (bq scenario_db) ''037720'' ''99999'' ''2020-01-01'' ''2020-01-03'' (Some [''rain_mm''])) =
             Inr (PDict [(''stn'', PStr ''037720''),
                         (''wban'', PStr ''99999''),
                         (''start_date'', PStr ''2020-01-01''),
                         (''end_date'', PStr ''2020-01-03''),
                         (''metrics'', PList [PStr ''rain_mm'']),
                         (''data'', PList (map PDict items))])
           \<and> length items = 3
           \<and> keys (items ! 1) \<subseteq> {''date'', ''rain_mm''}
           \<and> ''rain_mm'' \<notin> keys (items ! 1)
           \<and> map_of (items ! 0) ''rain_mm'' = Some (PFloat 25.4))"
proof -
  let ?rows = "[daily_row (day (2020, 1, 1) (Some 32) (Some 1) (Some 10)),
          daily_row (day (2020, 1, 2) (Some 50) (Some 99.99) (Some 999.9)),
          daily_row (day (2020, 1, 3) (Some 212) (Some 0.5) None)]"
  have h: "bq scenario_db (daily_weather_series_request ''037720'' ''99999'' ''2020-01-01'' ''2020-01-03'') = Inr ?rows"
    by (rule scenario_daily_rows)
  have c0: "col (?rows ! 0) ''prcp'' = PFloat 1" and c1: "col (?rows ! 1) ''prcp'' = PFloat 99.99"
    by (simp_all add: daily_row_def day_def col_def opt_float_def)
  from rain_only_series [where svc = "bq scenario_db" and rows = ?rows, OF h] obtain items where
    r: "result (daily_weather_series (bq scenario_db) ''037720'' ''99999'' ''2020-01-01'' ''2020-01-03'' (Some [''rain_mm''])) =
             Inr (PDict [(''stn'', PStr ''037720''),
                         (''wban'', PStr ''99999''),
                         (''start_date'', PStr ''2020-01-01''),
                         (''end_date'', PStr ''2020-01-03''),
                         (''metrics'', PList [PStr ''rain_mm'']),
                         (''data'', PList (map PDict items))])"
    and l: "length items = length ?rows"
    and a: "\<forall>i<length ?rows.
                 keys (items ! i) \<subseteq> {''date'', ''rain_mm''}
                 \<and> (''rain_mm'' \<in> keys (items ! i)
                      \<longleftrightarrow> (\<exists>p. col (?rows ! i) ''prcp'' = PFloat p \<and> p < 99.99))
                 \<and> (\<forall>p. col (?rows ! i) ''prcp'' = PFloat p \<and> p < 99.99
                      \<longrightarrow> map_of (items ! i) ''rain_mm'' = Some (PFloat (p * 25.4)))"
    by blast
  have k1: "keys (items ! 1) \<subseteq> {''date'', ''rain_mm''}" using a by simp
  have "''rain_mm'' \<in> keys (items ! 1) \<longleftrightarrow> (\<exists>p. col (?rows ! 1) ''prcp'' = PFloat p \<and> p < 99.99)"
    using a by simp
  then have n1: "''rain_mm'' \<notin> keys (items ! 1)" unfolding c1 by simp
  have "\<forall>p. col (?rows ! 0) ''prcp'' = PFloat p \<and> p < 99.99
                      \<longrightarrow> map_of (items ! 0) ''rain_mm'' = Some (PFloat (p * 25.4))"
    using a by simp
  then have v0: "map_of (items ! 0) ''rain_mm'' = Some (PFloat 25.4)" unfolding c0 by simp
  show ?thesis using h r l k1 n1 v0 by auto
qed

section \<open>No validation before the query\<close>

lemma char_of_digits:
  "char_of (48::nat) = CHR ''0''" "char_of (49::nat) = CHR ''1''" "char_of (50::nat) = CHR ''2''"
  "char_of (51::nat) = CHR ''3''" "char_of (52::nat) = CHR ''4''" "char_of (53::nat) = CHR ''5''"
  "char_of (54::nat) = CHR ''6''" "char_of (55::nat) = CHR ''7''" "char_of (56::nat) = CHR ''8''"
  "char_of (57::nat) = CHR ''9''"
  by code_simp+

lemma series_item_unknown:
  assumes "set ms \<inter> set known_metrics = {}"
  shows "series_item ms row = [(''date'', PStr (date_str (col row ''date'')))]"
proof -
  have "''temp_mean_c'' \<notin> set ms" "''temp_max_c'' \<notin> set ms" "''temp_min_c'' \<notin> set ms"
    "''rain_mm'' \<notin> set ms" "''wind_kmh'' \<notin> set ms"
    using assms by (auto simp: known_metrics_def)
  then show ?thesis by (simp add: series_item_def)
qed

lemma qualifying_reversed:
  assumes "ed < sd"
  shows "qualifying db stn wban sd ed = []"
proof -
  have "\<not> admitted stn wban sd ed ob" for ob
    using assms by (auto simp: admitted_def)
  then show ?thesis by (simp add: qualifying_def)
qed

text \<open>
  C3, as claimed: a call with a malformed date, with \<open>start_date > end_date\<close> or with an
  unknown metric name is rejected before any query is sent. It is not: with the start date
  \<open>yesterday\<close> the summary query is sent; with the dates reversed the daily query is sent
  and an empty series returned; with the metric \<open>humidity\<close> the daily query is sent and a
  series of date-only entries returned.
\<close>

theorem validation_counterexample:
  "parse_date ''yesterday'' = None
   \<and> issued (range_weather_summary (bq scenario_db) ''037720'' ''99999'' ''yesterday'' ''2020-01-03'') =
       [range_weather_summary_request ''037720'' ''99999'' ''yesterday'' ''2020-01-03'']
   \<and> parse_date ''2020-01-03'' = Some (2020, 1, 3)
   \<and> parse_date ''2020-01-01'' = Some (2020, 1, 1)
   \<and> issued (daily_weather_series (bq scenario_db) ''037720'' ''99999'' ''2020-01-03'' ''2020-01-01'' None) =
       [daily_weather_series_request ''037720'' ''99999'' ''2020-01-03'' ''2020-01-01'']
   \<and> result (daily_weather_series (bq scenario_db) ''037720'' ''99999'' ''2020-01-03'' ''2020-01-01'' None) =
       Inr (PDict [(''stn'', PStr ''037720''),
                   (''wban'', PStr ''99999''),
                   (''start_date'', PStr ''2020-01-03''),
                   (''end_date'', PStr ''2020-01-01''),
                   (''metrics'', PList [PStr ''temp_mean_c'']),
                   (''data'', PList [])])
   \<and> issued (daily_weather_series (bq scenario_db) ''037720'' ''99999'' ''2020-01-01'' ''2020-01-03''
        (Some [''humidity''])) =
       [daily_weather_series_request ''037720'' ''99999'' ''2020-01-01'' ''2020-01-03'']
   \<and> result (daily_weather_series (bq scenario_db) ''037720'' ''99999'' ''2020-01-01'' ''2020-01-03''
        (Some [''humidity''])) =
       Inr (PDict [(''stn'', PStr ''037720''),
                   (''wban'', PStr ''99999''),
                   (''start_date'', PStr ''2020-01-01''),
                   (''end_date'', PStr ''2020-01-03''),
                   (''metrics'', PList [PStr ''humidity'']),
                   (''data'', PList [PDict [(''date'', PStr ''2020-01-01'')],
                                     PDict [(''date'', PStr ''2020-01-02'')],
                                     PDict [(''date'', PStr ''2020-01-03'')]])])"
proof -
  have u: "set [''humidity''] \<inter> set known_metrics = {}"
    by (simp add: known_metrics_def)
  have a: "parse_date ''yesterday'' = None"
    by (simp add: parse_date_def)
  have b: "issued (range_weather_summary (bq scenario_db) ''037720'' ''99999'' ''yesterday'' ''2020-01-03'') =
       [range_weather_summary_request ''037720'' ''99999'' ''yesterday'' ''2020-01-03'']"
    by (simp add: range_weather_summary_def)
  have c: "issued (daily_weather_series (bq scenario_db) ''037720'' ''99999'' ''2020-01-03'' ''2020-01-01'' None) =
       [daily_weather_series_request ''037720'' ''99999'' ''2020-01-03'' ''2020-01-01'']"
    by (simp add: daily_weather_series_def)
  have d: "result (daily_weather_series (bq scenario_db) ''037720'' ''99999'' ''2020-01-03'' ''2020-01-01'' None) =
       Inr (PDict [(''stn'', PStr ''037720''),
                   (''wban'', PStr ''99999''),
                   (''start_date'', PStr ''2020-01-03''),
                   (''end_date'', PStr ''2020-01-01''),
                   (''metrics'', PList [PStr ''temp_mean_c'']),
                   (''data'', PList [])])"
    by (simp add: daily_weather_series_def result_run_query bq_daily parse_2020
        qualifying_reversed daily_weather_series_reply_def effective_metrics_def)
  have e: "issued (daily_weather_series (bq scenario_db) ''037720'' ''99999'' ''2020-01-01'' ''2020-01-03''
        (Some [''humidity''])) =
       [daily_weather_series_request ''037720'' ''99999'' ''2020-01-01'' ''2020-01-03'']"
    by (simp add: daily_weather_series_def)
  have f: "result (daily_weather_series (bq scenario_db) ''037720'' ''99999'' ''2020-01-01'' ''2020-01-03''
        (Some [''humidity''])) =
       Inr (PDict [(''stn'', PStr ''037720''),
                   (''wban'', PStr ''99999''),
                   (''start_date'', PStr ''2020-01-01''),
                   (''end_date'', PStr ''2020-01-03''),
                   (''metrics'', PList [PStr ''humidity'']),
                   (''data'', PList [PDict [(''date'', PStr ''2020-01-01'')],
                                     PDict [(''date'', PStr ''2020-01-02'')],
                                     PDict [(''date'', PStr ''2020-01-03'')]])])"
    by (simp add: daily_weather_series_def result_run_query scenario_daily_rows
        daily_weather_series_reply_def effective_metrics_def build_series_map
        series_item_unknown [OF u] daily_row_def day_def col_def date_str_def
        pad4_def pad2_def digit_char_def char_of_digits)
  show ?thesis using a b c d e f parse_2020 by simp
qed

text \<open>
  C3, amended. No tool checks its arguments. Each of \<open>range_weather_summary\<close>,
  \<open>yearly_max_temp\<close> and \<open>daily_weather_series\<close> sends exactly one request, built from
  the arguments as given, whatever they are, and fails exactly when the service fails.
  Against the reference service a date text that is no date makes that request fail (an
  upstream failure); reversed dates select no row and are no error (the series is empty);
  metric names outside the five known ones are ignored, so that a request naming only
  such metrics gets date-only entries.
\<close>

theorem tools_do_not_validate:
  "issued (range_weather_summary svc stn wban start_date end_date) =
     [range_weather_summary_request stn wban start_date end_date]
   \<and> issued (yearly_max_temp svc stn wban year) = [yearly_max_temp_request stn wban year]
   \<and> issued (daily_weather_series svc stn wban start_date end_date metrics) =
     [daily_weather_series_request stn wban start_date end_date]
   \<and> ((\<exists>e. result (range_weather_summary svc stn wban start_date end_date) = Inl e)
        \<longleftrightarrow> (\<exists>msg. svc (range_weather_summary_request stn wban start_date end_date) = Inl msg))
   \<and> ((\<exists>e. result (yearly_max_temp svc stn wban year) = Inl e)
        \<longleftrightarrow> (\<exists>msg. svc (yearly_max_temp_request stn wban year) = Inl msg))
   \<and> ((\<exists>e. result (daily_weather_series svc stn wban start_date end_date metrics) = Inl e)
        \<longleftrightarrow> (\<exists>msg. svc (daily_weather_series_request stn wban start_date end_date) = Inl msg))
   \<and> (parse_date start_date = None \<or> parse_date end_date = None \<longrightarrow>
        (\<exists>msg. result (range_weather_summary (bq db) stn wban start_date end_date) =
                 Inl (UpstreamFailure msg))
        \<and> (\<exists>msg. result (daily_weather_series (bq db) stn wban start_date end_date metrics) =
                 Inl (UpstreamFailure msg)))
   \<and> (\<forall>sd ed. parse_date start_date = Some sd \<and> parse_date end_date = Some ed \<and> ed < sd \<longrightarrow>
        (\<exists>v. result (range_weather_summary (bq db) stn wban start_date end_date) = Inr v)
        \<and> (\<exists>v. result (daily_weather_series (bq db) stn wban start_date end_date metrics) = Inr v
              \<and> path v [''data''] = Some (PList [])))
   \<and> (\<forall>ms rows. ms \<noteq> [] \<and> set ms \<inter> set known_metrics = {}
          \<and> svc (daily_weather_series_request stn wban start_date end_date) = Inr rows \<longrightarrow>
        (\<exists>v. result (daily_weather_series svc stn wban start_date end_date (Some ms)) = Inr v
              \<and> path v [''metrics''] = Some (PList (map PStr ms))
              \<and> path v [''data''] =
                  Some (PList (map (\<lambda>row. PDict [(''date'', PStr (date_str (col row ''date'')))])
                                 rows))))"
proof -
  have 1: "issued (range_weather_summary svc stn wban start_date end_date) =
     [range_weather_summary_request stn wban start_date end_date]"
    by (simp add: range_weather_summary_def)
  have 2: "issued (yearly_max_temp svc stn wban year) = [yearly_max_temp_request stn wban year]"
    by (simp add: yearly_max_temp_def)
  have 3: "issued (daily_weather_series svc stn wban start_date end_date metrics) =
     [daily_weather_series_request stn wban start_date end_date]"
    by (simp add: daily_weather_series_def)
  have 4: "(\<exists>e. result (range_weather_summary svc stn wban start_date end_date) = Inl e)
        \<longleftrightarrow> (\<exists>msg. svc (range_weather_summary_request stn wban start_date end_date) = Inl msg)"
    by (simp add: range_weather_summary_def result_run_query split: sum.splits)
  have 5: "(\<exists>e. result (yearly_max_temp svc stn wban year) = Inl e)
        \<longleftrightarrow> (\<exists>msg. svc (yearly_max_temp_request stn wban year) = Inl msg)"
    by (simp add: yearly_max_temp_def result_run_query split: sum.splits)
  have 6: "(\<exists>e. result (daily_weather_series svc stn wban start_date end_date metrics) = Inl e)
        \<longleftrightarrow> (\<exists>msg. svc (daily_weather_series_request stn wban start_date end_date) = Inl msg)"
    by (simp add: daily_weather_series_def result_run_query split: sum.splits)
  have 7: "parse_date start_date = None \<or> parse_date end_date = None \<longrightarrow>
        (\<exists>msg. result (range_weather_summary (bq db) stn wban start_date end_date) =
                 Inl (UpstreamFailure msg))
        \<and> (\<exists>msg. result (daily_weather_series (bq db) stn wban start_date end_date metrics) =
                 Inl (UpstreamFailure msg))"
    by (auto simp add: range_weather_summary_def daily_weather_series_def result_run_query
        bq_summary bq_daily split: option.splits)
  have 8: "\<forall>sd ed. parse_date start_date = Some sd \<and> parse_date end_date = Some ed \<and> ed < sd \<longrightarrow>
        (\<exists>v. result (range_weather_summary (bq db) stn wban start_date end_date) = Inr v)
        \<and> (\<exists>v. result (daily_weather_series (bq db) stn wban start_date end_date metrics) = Inr v
              \<and> path v [''data''] = Some (PList []))"
    by (auto simp add: range_weather_summary_def daily_weather_series_def result_run_query
        bq_summary bq_daily qualifying_reversed daily_weather_series_reply_def)
  have 9: "\<forall>ms rows. ms \<noteq> [] \<and> set ms \<inter> set known_metrics = {}
          \<and> svc (daily_weather_series_request stn wban start_date end_date) = Inr rows \<longrightarrow>
        (\<exists>v. result (daily_weather_series svc stn wban start_date end_date (Some ms)) = Inr v
              \<and> path v [''metrics''] = Some (PList (map PStr ms))
              \<and> path v [''data''] =
                  Some (PList (map (\<lambda>row. PDict [(''date'', PStr (date_str (col row ''date'')))])
                                 rows)))"
    by (auto simp add: daily_weather_series_def result_run_query daily_weather_series_reply_def
        effective_metrics_def build_series_map series_item_unknown)
  show ?thesis using 1 2 3 4 5 6 7 8 9 by blast
qed

theorem tools_do_not_validate_witness:
  "parse_date ''yesterday'' = None
   \<and> (\<exists>msg. result (range_weather_summary (bq scenario_db) ''037720'' ''99999''
                 ''yesterday'' ''2020-01-03'') = Inl (UpstreamFailure msg))
   \<and> parse_date ''2020-01-03'' = Some (2020, 1, 3)
   \<and> parse_date ''2020-01-01'' = Some (2020, 1, 1)
   \<and> ((2020, 1, 1) :: date) < (2020, 1, 3)
   \<and> (\<exists>v. result (daily_weather_series (bq scenario_db) ''037720'' ''99999''
               ''2020-01-03'' ''2020-01-01'' None) = Inr v
          \<and> path v [''data''] = Some (PList []))
   \<and> [''humidity''] \<noteq> []
   \<and> set [''humidity''] \<inter> set known_metrics = {}
   \<and> bq scenario_db
        (daily_weather_series_request ''037720'' ''99999'' ''2020-01-01'' ''2020-01-03'') =
       Inr [daily_row (day (2020, 1, 1) (Some 32) (Some 1) (Some 10)),
            daily_row (day (2020, 1, 2) (Some 50) (Some 99.99) (Some 999.9)),
            daily_row (day (2020, 1, 3) (Some 212) (Some 0.5) None)]
   \<and> (\<exists>v. result (daily_weather_series (bq scenario_db) ''037720'' ''99999''
               ''2020-01-01'' ''2020-01-03'' (Some [''humidity''])) = Inr v
          \<and> path v [''data''] =
              Some (PList (map (\<lambda>row. PDict [(''date'', PStr (date_str (col row ''date'')))])
                 [daily_row (day (2020, 1, 1) (Some 32) (Some 1) (Some 10)),
                  daily_row (day (2020, 1, 2) (Some 50) (Some 99.99) (Some 999.9)),
                  daily_row (day (2020, 1, 3) (Some 212) (Some 0.5) None)])))"
proof -
  have a: "parse_date ''yesterday'' = None"
    by (simp add: parse_date_def)
  have lt: "((2020, 1, 1) :: date) < (2020, 1, 3)" by simp
  have u: "set [''humidity''] \<inter> set known_metrics = {}"
    by (simp add: known_metrics_def)
  have ne: "[''humidity''] \<noteq> ([] :: string list)" by simp
  have A: "\<exists>msg. result (range_weather_summary (bq scenario_db) ''037720'' ''99999''
                 ''yesterday'' ''2020-01-03'') = Inl (UpstreamFailure msg)"
    using a tools_do_not_validate [where db = scenario_db and stn = "''037720''"
        and wban = "''99999''" and start_date = "''yesterday''" and end_date = "''2020-01-03''"]
    by blast
  have B: "\<exists>v. result (daily_weather_series (bq scenario_db) ''037720'' ''99999''
               ''2020-01-03'' ''2020-01-01'' None) = Inr v
          \<and> path v [''data''] = Some (PList [])"
    using lt parse_2020 tools_do_not_validate [where db = scenario_db and stn = "''037720''"
        and wban = "''99999''" and start_date = "''2020-01-03''" and end_date = "''2020-01-01''"
        and metrics = None]
    by blast
  have C: "\<exists>v. result (daily_weather_series (bq scenario_db) ''037720'' ''99999''
               ''2020-01-01'' ''2020-01-03'' (Some [''humidity''])) = Inr v
          \<and> path v [''data''] =
              Some (PList (map (\<lambda>row. PDict [(''date'', PStr (date_str (col row ''date'')))])
                 [daily_row (day (2020, 1, 1) (Some 32) (Some 1) (Some 10)),
                  daily_row (day (2020, 1, 2) (Some 50) (Some 99.99) (Some 999.9)),
                  daily_row (day (2020, 1, 3) (Some 212) (Some 0.5) None)]))"
    using ne u scenario_daily_rows
      tools_do_not_validate [where svc = "bq scenario_db" and stn = "''037720''"
        and wban = "''99999''" and start_date = "''2020-01-01''" and end_date = "''2020-01-03''"]
    by blast
  show ?thesis
    using a A parse_2020(1,3) lt B ne u scenario_daily_rows C by blast
qed

section \<open>Query text and bind parameters\<close>

text \<open>
  C9, as claimed: two calls of the same tool always send the same query text. Not so for
  \<open>resolve_city\<close>: the text has the clause \<^verbatim>\<open>AND country = @country\<close> when a country
  code is given and lacks it otherwise.
\<close>

theorem query_text_counterexample:
  "map qtext (issued (resolve_city (bq scenario_db) ''London'' None))
     \<noteq> map qtext (issued (resolve_city (bq scenario_db) ''London'' (Some ''UK'')))"
  using stations_sql_neq by (simp add: resolve_city_def resolve_city_request_def)

text \<open>
  C9, amended. The query text of \<open>range_weather_summary\<close>, \<open>yearly_max_temp\<close> and
  \<open>daily_weather_series\<close> is the same for all arguments; that of \<open>resolve_city\<close> is one
  of two fixed texts, chosen only by whether a non-empty country code is given. The
  caller's values appear in the request as typed bind parameters and nowhere else.
\<close>

theorem query_text_fixed:
  "map qtext (issued (range_weather_summary svc stn wban start_date end_date)) =
     map qtext (issued (range_weather_summary svc' stn' wban' start_date' end_date'))
   \<and> map qtext (issued (yearly_max_temp svc stn wban year)) =
     map qtext (issued (yearly_max_temp svc' stn' wban' year'))
   \<and> map qtext (issued (daily_weather_series svc stn wban start_date end_date metrics)) =
     map qtext (issued (daily_weather_series svc' stn' wban' start_date' end_date' metrics'))
   \<and> (truthy country_code = truthy country_code' \<longrightarrow>
        map qtext (issued (resolve_city svc city country_code)) =
        map qtext (issued (resolve_city svc' city' country_code')))
   \<and> map qtext (issued (resolve_city svc city country_code)) =
       [stations_sql (if truthy country_code then ''AND country = @country'' else [])]
   \<and> map qparams (issued (resolve_city svc city country_code)) =
       [scalar_param ''city'' ''STRING'' (PStr city)
        # (case country_code of
             None \<Rightarrow> []
           | Some cc \<Rightarrow> if cc \<noteq> [] then [scalar_param ''country'' ''STRING'' (PStr cc)] else [])]
   \<and> map qparams (issued (range_weather_summary svc stn wban start_date end_date)) =
       [[scalar_param ''stn'' ''STRING'' (PStr stn),
         scalar_param ''wban'' ''STRING'' (PStr wban),
         scalar_param ''start_date'' ''DATE'' (PStr start_date),
         scalar_param ''end_date'' ''DATE'' (PStr end_date)]]
   \<and> map qparams (issued (yearly_max_temp svc stn wban year)) =
       [[scalar_param ''stn'' ''STRING'' (PStr stn),
         scalar_param ''wban'' ''STRING'' (PStr wban),
         scalar_param ''year'' ''INT64'' (PInt year)]]
   \<and> map qparams (issued (daily_weather_series svc stn wban start_date end_date metrics)) =
       [[scalar_param ''stn'' ''STRING'' (PStr stn),
         scalar_param ''wban'' ''STRING'' (PStr wban),
         scalar_param ''start_date'' ''DATE'' (PStr start_date),
         scalar_param ''end_date'' ''DATE'' (PStr end_date)]]"
  by (simp add: range_weather_summary_def yearly_max_temp_def daily_weather_series_def
      resolve_city_def range_weather_summary_request_def yearly_max_temp_request_def
      daily_weather_series_request_def resolve_city_request_def truthy_def
      split: option.splits)

theorem query_text_fixed_witness:
  "truthy None = truthy (Some [])
   \<and> map qtext (issued (resolve_city (bq scenario_db) ''London'' None)) =
     map qtext (issued (resolve_city (\<lambda>r. Inl ''down'') ''Paris; DROP TABLE stations'' (Some [])))
   \<and> truthy (Some ''UK'') = truthy (Some ''x' OR 1=1'')
   \<and> map qtext (issued (resolve_city (bq scenario_db) ''London'' (Some ''UK''))) =
     map qtext (issued (resolve_city (bq scenario_db) ''%'' (Some ''x' OR 1=1'')))"
proof -
  have a: "truthy None = truthy (Some [])" by (simp add: truthy_def)
  have b: "truthy (Some ''UK'') = truthy (Some ''x' OR 1=1'')" by (simp add: truthy_def)
  have A: "map qtext (issued (resolve_city (bq scenario_db) ''London'' None)) =
     map qtext (issued (resolve_city (\<lambda>r. Inl ''down'') ''Paris; DROP TABLE stations'' (Some [])))"
    using a query_text_fixed [where country_code = None and country_code' = "Some []"]
    by blast
  have B: "map qtext (issued (resolve_city (bq scenario_db) ''London'' (Some ''UK''))) =
     map qtext (issued (resolve_city (bq scenario_db) ''%'' (Some ''x' OR 1=1'')))"
    using b query_text_fixed [where country_code = "Some ''UK''" and country_code' = "Some ''x' OR 1=1''"]
    by blast
  show ?thesis using a b A B by blast
qed

section \<open>Order of the daily series\<close>

lemma digit_val_digit_char [simp]: "digit_val (digit_char n) = Some (n mod 10)"
  by (simp add: digit_val_def digit_char_def Let_def)














section \<open>Resolving a city\<close>

lemma contains_iff: "contains s t \<longleftrightarrow> (\<exists>pre post. s = pre @ t @ post)"
proof (induction s)
  case Nil
  then show ?case by simp
next
  case (Cons c s)
  have "take (length t) (c # s) = t \<longleftrightarrow> (\<exists>post. c # s = t @ post)"
    by (metis append_eq_conv_conj append_take_drop_id)
  moreover have "(\<exists>pre post. c # s = pre @ t @ post)
      \<longleftrightarrow> (\<exists>post. c # s = t @ post) \<or> (\<exists>pre post. s = pre @ t @ post)"
  proof
    assume "\<exists>pre post. c # s = pre @ t @ post"
    then obtain pre post where e: "c # s = pre @ t @ post" by blast
    show "(\<exists>post. c # s = t @ post) \<or> (\<exists>pre post. s = pre @ t @ post)"
    proof (cases pre)
      case Nil
      with e show ?thesis by auto
    next
      case (Cons a pre')
      with e have "s = pre' @ t @ post" by simp
      then show ?thesis by blast
    qed
  next
    assume "(\<exists>post. c # s = t @ post) \<or> (\<exists>pre post. s = pre @ t @ post)"
    then show "\<exists>pre post. c # s = pre @ t @ post"
    proof
      assume "\<exists>post. c # s = t @ post"
      then obtain post where "c # s = [] @ t @ post" by auto
      then show ?thesis by blast
    next
      assume "\<exists>pre post. s = pre @ t @ post"
      then obtain pre post where "c # s = (c # pre) @ t @ post" by auto
      then show ?thesis by blast
    qed
  qed
  ultimately show ?case using Cons.IH by simp
qed

lemma like_percent_only: "like_match ''%'' s"
  by (induction s) simp_all

lemma like_percent_start:
  "like_match (CHR ''%'' # q) s \<longleftrightarrow> (\<exists>pre post. s = pre @ post \<and> like_match q post)"
proof (induction s)
  case Nil
  then show ?case by simp
next
  case (Cons c s)
  have "like_match (CHR ''%'' # q) (c # s)
      \<longleftrightarrow> like_match q (c # s) \<or> like_match (CHR ''%'' # q) s"
    by simp
  also have "\<dots> \<longleftrightarrow> like_match q (c # s) \<or> (\<exists>pre post. s = pre @ post \<and> like_match q post)"
    using Cons.IH by simp
  also have "\<dots> \<longleftrightarrow> (\<exists>pre post. c # s = pre @ post \<and> like_match q post)"
  proof
    assume "like_match q (c # s) \<or> (\<exists>pre post. s = pre @ post \<and> like_match q post)"
    then show "\<exists>pre post. c # s = pre @ post \<and> like_match q post"
    proof
      assume "like_match q (c # s)"
      then have "c # s = [] @ (c # s) \<and> like_match q (c # s)" by simp
      then show ?thesis by blast
    next
      assume "\<exists>pre post. s = pre @ post \<and> like_match q post"
      then obtain pre post where "c # s = (c # pre) @ post \<and> like_match q post" by auto
      then show ?thesis by blast
    qed
  next
    assume "\<exists>pre post. c # s = pre @ post \<and> like_match q post"
    then obtain pre post where e: "c # s = pre @ post" "like_match q post" by blast
    show "like_match q (c # s) \<or> (\<exists>pre post. s = pre @ post \<and> like_match q post)"
    proof (cases pre)
      case Nil
      with e show ?thesis by simp
    next
      case (Cons a pre')
      with e have "s = pre' @ post" by simp
      with e(2) show ?thesis by blast
    qed
  qed
  finally show ?case .
qed

lemma like_literal:
  assumes "wildcard_free p"
  shows "like_match (p @ q) s \<longleftrightarrow> (\<exists>t. s = p @ t \<and> like_match q t)"
  using assms
proof (induction p arbitrary: s)
  case Nil
  then show ?case by simp
next
  case (Cons c p)
  then have c: "c \<noteq> CHR ''%''" "c \<noteq> CHR ''_''" "c \<noteq> CHR 0x5C" and p: "wildcard_free p"
    by (simp_all add: wildcard_free_def)
  show ?case
  proof (cases s)
    case Nil
    with c show ?thesis by simp
  next
    case (Cons a t)
    with c Cons.IH [OF p, of t] show ?thesis by auto
  qed
qed

lemma like_substring:
  assumes "wildcard_free p"
  shows "like_match (''%'' @ p @ ''%'') s \<longleftrightarrow> contains s p"
proof -
  have "like_match (''%'' @ p @ ''%'') s
      \<longleftrightarrow> (\<exists>pre post. s = pre @ post \<and> like_match (p @ ''%'') post)"
    using like_percent_start [of "p @ ''%''" s] by simp
  also have "\<dots> \<longleftrightarrow> (\<exists>pre post. s = pre @ post \<and> (\<exists>t. post = p @ t))"
    using like_literal [OF assms, of "''%''"] like_percent_only by simp
  also have "\<dots> \<longleftrightarrow> (\<exists>pre t. s = pre @ p @ t)" by blast
  finally show ?thesis by (simp add: contains_iff)
qed

lemma upper_char_wildcard:
  "upper_char c = CHR ''%'' \<longleftrightarrow> c = CHR ''%''"
  "upper_char c = CHR ''_'' \<longleftrightarrow> c = CHR ''_''"
  "upper_char c = CHR 0x5C \<longleftrightarrow> c = CHR 0x5C"
  by (auto simp: upper_char_def Let_def char_of_eq_iff take_bit_eq_mod)

lemma wildcard_free_upper: "wildcard_free (upper s) = wildcard_free s"
  by (induction s) (simp_all add: wildcard_free_def upper_def upper_char_wildcard)

lemma wanted_substring:
  assumes "wildcard_free city"
  shows "filter (wanted city country_code) (stations db) = substring_matches db city country_code"
proof -
  have "wildcard_free (upper city)" using assms by (simp add: wildcard_free_upper)
  then have "name_matches city s \<longleftrightarrow> contains (upper (s_name s)) (upper city)" for s
    unfolding name_matches_def by (rule like_substring)
  then have "wanted city country_code =
      (\<lambda>s. contains (upper (s_name s)) (upper city)
                 \<and> (case country_code of None \<Rightarrow> True | Some cc \<Rightarrow> cc = [] \<or> s_country s = cc))"
    by (simp add: wanted_def fun_eq_iff)
  then show ?thesis by (simp add: substring_matches_def)
qed

lemma first_by_key:
  fixes f :: "'a \<Rightarrow> 'b::linorder"
  assumes "xs \<noteq> []"
  shows "\<exists>x\<in>set xs. take 1 (sort_key f xs) = [x] \<and> (\<forall>y\<in>set xs. f x \<le> f y)"
proof -
  have "sort_key f xs \<noteq> []" using assms by (metis length_0_conv length_sort)
  then obtain x ys where s: "sort_key f xs = x # ys" by (cases "sort_key f xs") auto
  have "sorted (map f (x # ys))" using sorted_sort_key [of f xs] by (simp add: s)
  then have "\<forall>y\<in>set (x # ys). f x \<le> f y" by auto
  moreover have "set (x # ys) = set xs" using set_sort [of f xs] by (simp add: s)
  ultimately show ?thesis using s by auto
qed

text \<open>
  C6, amended. For a city text without the pattern characters of LIKE (percent sign,
  underscore, backslash), \<open>resolve_city\<close> over the reference service finds the stations
  whose name contains the city text, letter case aside, restricted to the given country
  when a non-empty country code is supplied. When there is none it answers
  \<open>found: False\<close> with a reason, as a normal reply; otherwise it answers \<open>found: True\<close>
  with the fields of one of them whose name is least in the order of strings.
\<close>

theorem resolve_city_substring:
  assumes "wildcard_free city"
  shows "(substring_matches db city country_code = [] \<longrightarrow>
            result (resolve_city (bq db) city country_code) =
              Inr (PDict [(''found'', PBool False), (''reason'', PStr ''No station for that city'')]))
       \<and> (substring_matches db city country_code \<noteq> [] \<longrightarrow>
            (\<exists>s\<in>set (substring_matches db city country_code).
               (\<forall>t\<in>set (substring_matches db city country_code). s_name s \<le> s_name t)
               \<and> result (resolve_city (bq db) city country_code) =
                   Inr (PDict [(''found'', PBool True),
                               (''stn'', PStr (s_stn s)),
                               (''wban'', PStr (s_wban s)),
                               (''name'', PStr (s_name s)),
                               (''country'', PStr (s_country s)),
                               (''lat'', opt_float (s_lat s)),
                               (''lon'', opt_float (s_lon s))])))"
proof (cases "substring_matches db city country_code = []")
  case True
  then show ?thesis
    by (simp add: resolve_city_def result_run_query bq_stations wanted_substring [OF assms]
        resolve_city_reply_def)
next
  case False
  from first_by_key [OF False, of s_name] obtain s where
    s: "s \<in> set (substring_matches db city country_code)"
      "take 1 (sort_key s_name (substring_matches db city country_code)) = [s]"
      "\<forall>t\<in>set (substring_matches db city country_code). s_name s \<le> s_name t"
    by blast
  have "result (resolve_city (bq db) city country_code) =
          Inr (PDict [(''found'', PBool True),
                      (''stn'', PStr (s_stn s)),
                      (''wban'', PStr (s_wban s)),
                      (''name'', PStr (s_name s)),
                      (''country'', PStr (s_country s)),
                      (''lat'', opt_float (s_lat s)),
                      (''lon'', opt_float (s_lon s))])"
    using s(2)
    by (simp add: resolve_city_def result_run_query bq_stations wanted_substring [OF assms]
        resolve_city_reply_def station_row_def col_def)
  with s(1,3) False show ?thesis by blast
qed

lemma upper_examples:
  "upper ''l_ndon'' = ''L_NDON''" "upper ''london'' = ''LONDON''" "upper ''paris'' = ''PARIS''"
  "upper ''LONDON WEATHER CENTRE'' = ''LONDON WEATHER CENTRE''"
  "upper ''NEW LONDON'' = ''NEW LONDON''"
  "upper ''LONDON GATWICK'' = ''LONDON GATWICK''"
  by code_simp+

lemma like_examples:
  "like_match ''%L_NDON%'' ''LONDON WEATHER CENTRE''"
  "like_match ''%L_NDON%'' ''NEW LONDON''"
  "like_match ''%L_NDON%'' ''LONDON GATWICK''"
  "like_match ''%LONDON%'' ''LONDON WEATHER CENTRE''"
  "like_match ''%LONDON%'' ''NEW LONDON''"
  "like_match ''%LONDON%'' ''LONDON GATWICK''"
  by code_simp+

lemma contains_examples:
  "\<not> contains ''LONDON GATWICK'' ''L_NDON''"
  "contains ''LONDON WEATHER CENTRE'' ''LONDON''"
  "contains ''NEW LONDON'' ''LONDON''"
  "contains ''LONDON GATWICK'' ''LONDON''"
  "\<not> contains ''LONDON WEATHER CENTRE'' ''PARIS''"
  "\<not> contains ''NEW LONDON'' ''PARIS''"
  "\<not> contains ''LONDON GATWICK'' ''PARIS''"
  by code_simp+

text \<open>
  C6, as claimed: the match is substring containment and a supplied country code
  restricts the match to that country. Neither holds for every input: the city text
  \<open>l_ndon\<close> finds LONDON GATWICK, whose name does not contain \<open>L_NDON\<close> (the underscore
  is read as a pattern character), and the empty country code applies no restriction.
\<close>

theorem resolve_city_counterexample:
  "result (resolve_city (bq cities_db) ''l_ndon'' None) =
     Inr (PDict [(''found'', PBool True),
                 (''stn'', PStr ''037760''),
                 (''wban'', PStr ''99999''),
                 (''name'', PStr ''LONDON GATWICK''),
                 (''country'', PStr ''UK''),
                 (''lat'', PFloat 51.1),
                 (''lon'', PFloat (- 0.2))])
   \<and> \<not> contains (upper ''LONDON GATWICK'') (upper ''l_ndon'')
   \<and> result (resolve_city (bq cities_db) ''london'' (Some [])) =
     Inr (PDict [(''found'', PBool True),
                 (''stn'', PStr ''037760''),
                 (''wban'', PStr ''99999''),
                 (''name'', PStr ''LONDON GATWICK''),
                 (''country'', PStr ''UK''),
                 (''lat'', PFloat 51.1),
                 (''lon'', PFloat (- 0.2))])"
proof -
  have a: "result (resolve_city (bq cities_db) ''l_ndon'' None) =
     Inr (PDict [(''found'', PBool True),
                 (''stn'', PStr ''037760''),
                 (''wban'', PStr ''99999''),
                 (''name'', PStr ''LONDON GATWICK''),
                 (''country'', PStr ''UK''),
                 (''lat'', PFloat 51.1),
                 (''lon'', PFloat (- 0.2))])"
    by (simp add: resolve_city_def result_run_query bq_stations wanted_def name_matches_def
        upper_examples like_examples cities_db_def resolve_city_reply_def station_row_def
        col_def opt_float_def)
  have b: "\<not> contains (upper ''LONDON GATWICK'') (upper ''l_ndon'')"
    by (simp only: upper_examples contains_examples simp_thms)
  have c: "result (resolve_city (bq cities_db) ''london'' (Some [])) =
     Inr (PDict [(''found'', PBool True),
                 (''stn'', PStr ''037760''),
                 (''wban'', PStr ''99999''),
                 (''name'', PStr ''LONDON GATWICK''),
                 (''country'', PStr ''UK''),
                 (''lat'', PFloat 51.1),
                 (''lon'', PFloat (- 0.2))])"
    by (simp add: resolve_city_def result_run_query bq_stations wanted_def name_matches_def
        upper_examples like_examples cities_db_def resolve_city_reply_def station_row_def
        col_def opt_float_def)
  show ?thesis using a b c by blast
qed

theorem resolve_city_substring_witness:
  "wildcard_free ''london''
   \<and> substring_matches cities_db ''london'' (Some ''US'') =
       [\<lparr>s_stn = ''725046'', s_wban = ''14707'', s_name = ''NEW LONDON'',
          s_country = ''US'', s_lat = Some 41.3, s_lon = None\<rparr>]
   \<and> result (resolve_city (bq cities_db) ''london'' (Some ''US'')) =
       Inr (PDict [(''found'', PBool True),
                   (''stn'', PStr ''725046''),
                   (''wban'', PStr ''14707''),
                   (''name'', PStr ''NEW LONDON''),
                   (''country'', PStr ''US''),
                   (''lat'', PFloat 41.3),
                   (''lon'', PNone)])
   \<and> wildcard_free ''paris''
   \<and> substring_matches cities_db ''paris'' None = []
   \<and> result (resolve_city (bq cities_db) ''paris'' None) =
       Inr (PDict [(''found'', PBool False), (''reason'', PStr ''No station for that city'')])"
proof -
  have a: "wildcard_free ''london''" and b: "wildcard_free ''paris''"
    by (simp_all add: wildcard_free_def)
  have m: "substring_matches cities_db ''london'' (Some ''US'') =
       [\<lparr>s_stn = ''725046'', s_wban = ''14707'', s_name = ''NEW LONDON'',
          s_country = ''US'', s_lat = Some 41.3, s_lon = None\<rparr>]"
    by (simp add: substring_matches_def cities_db_def upper_examples contains_examples)
  have n: "substring_matches cities_db ''paris'' None = []"
    by (simp add: substring_matches_def cities_db_def upper_examples contains_examples)
  have A: "result (resolve_city (bq cities_db) ''london'' (Some ''US'')) =
       Inr (PDict [(''found'', PBool True),
                   (''stn'', PStr ''725046''),
                   (''wban'', PStr ''14707''),
                   (''name'', PStr ''NEW LONDON''),
                   (''country'', PStr ''US''),
                   (''lat'', PFloat 41.3),
                   (''lon'', PNone)])"
    using resolve_city_substring [OF a, of cities_db "Some ''US''"]
    unfolding m by (simp add: opt_float_def)
  have B: "result (resolve_city (bq cities_db) ''paris'' None) =
       Inr (PDict [(''found'', PBool False), (''reason'', PStr ''No station for that city'')])"
    using resolve_city_substring [OF b, of cities_db None] n by blast
  show ?thesis using a b m n A B by blast
qed

section \<open>Importing the module\<close>

lemma import_outcome:
  "import_module fails = Inl (NameError ''List'')
   \<or> (\<exists>i<20. fails i \<and> import_module fails = Inl (Raised i))"
  by (simp add: import_module_def server_py_def builtins_def)

text \<open>
  C10. Importing the module never completes, so no tool can be invoked: the annotation
  \<^verbatim>\<open>Optional[List[str]]\<close> of \<open>daily_weather_series\<close> looks up \<open>List\<close>, which no
  statement binds (\<^verbatim>\<open>from typing import Optional\<close> binds \<open>Optional\<close> only). When no
  statement fails for an outside reason, the import ends in \<open>NameError\<close> for \<open>List\<close>.
\<close>

theorem import_fails:
  "(\<forall>env. import_module fails \<noteq> Inr env)
   \<and> ((\<forall>i. \<not> fails i) \<longrightarrow> import_module fails = Inl (NameError ''List''))"
  using import_outcome [of fails] by auto

theorem import_fails_witness:
  "(\<forall>i. \<not> (\<lambda>_. False) i) \<and> import_module (\<lambda>_. False) = Inl (NameError ''List'')"
  using import_fails [of "\<lambda>_. False"] by simp

text \<open>With \<open>List\<close> bound beforehand, the same statements run to the end.\<close>

lemma import_with_List:
  "\<exists>env. exec_from (\<lambda>_. False) 0 (''List'' # builtins) server_py = Inr env"
  by (simp add: server_py_def builtins_def)

end
